theory Spec2Isabelle
  imports Complex_Main "HOL-Library.Monad_Syntax"
begin

section \<open>Python values shared by the embedded functions\<close>

text \<open>
  The exceptions the embedded functions of LiMe can raise.  \<open>LiMe_Error\<close> is the
  package's own exception class (\<open>io.py\<close>); \<open>SystemExit\<close> is what \<open>sys.exit\<close> raises;
  the others are Python's built-in exceptions.
\<close>

datatype py_error =
    LiMe_Error
  | AssertionError
  | IndexError
  | KeyError
  | ValueError
  | TypeError
  | RuntimeError
  | UnboundLocalError
  | ZeroDivisionError
  | NameError
  | OSError
  | SystemExit
  | OtherError

subsection \<open>Slicing\<close>

text \<open>
  Python clamps the bounds of a slice to the sequence: a negative bound counts from the
  end and stops at the start, a bound beyond the end stops at the end.
\<close>

definition py_clamp :: "nat \<Rightarrow> int \<Rightarrow> nat" where
  "py_clamp n i = (if i < 0 then nat (int n + i) else min (nat i) n)"

definition py_slice :: "'a list \<Rightarrow> int \<Rightarrow> int \<Rightarrow> 'a list" where
  \<comment> \<open>\<open>s[a:b]\<close>\<close>
  "py_slice s a b =
     (let lo = py_clamp (length s) a; hi = py_clamp (length s) b
      in take (hi - lo) (drop lo s))"

definition py_slice_from :: "'a list \<Rightarrow> int \<Rightarrow> 'a list" where
  \<comment> \<open>\<open>s[a:]\<close>\<close>
  "py_slice_from s a = drop (py_clamp (length s) a) s"

definition py_slice_to :: "'a list \<Rightarrow> int \<Rightarrow> 'a list" where
  \<comment> \<open>\<open>s[:b]\<close>\<close>
  "py_slice_to s b = take (py_clamp (length s) b) s"

section \<open>\<open>plots_interactive.py\<close>: cycling a line label\<close>

text \<open>
  \<^verbatim>\<open>
  def circle_band_label(current_label):
      line_suffix = current_label[-2:]
      if line_suffix == '_b':
          new_label = f'{current_label[:-2]}_m'
      elif line_suffix == '_m':
          new_label = current_label[:-2]
      else:
          new_label = f'{current_label}_b'
      return new_label
  \<close>
\<close>

definition circle_band_label :: "string \<Rightarrow> string" where
  "circle_band_label current_label =
     (let line_suffix = py_slice_from current_label (-2)
      in if line_suffix = ''_b'' then py_slice_to current_label (-2) @ ''_m''
         else if line_suffix = ''_m'' then py_slice_to current_label (-2)
         else current_label @ ''_b'')"

definition bare_label :: "string \<Rightarrow> bool" where
  \<comment> \<open>a label that carries neither of the two suffixes\<close>
  "bare_label X \<longleftrightarrow> py_slice_from X (-2) \<noteq> ''_b'' \<and> py_slice_from X (-2) \<noteq> ''_m''"

section \<open>\<open>plots_interactive.py\<close>: the band editor's drag selection\<close>

text \<open>
  \<open>BandsInspection._on_select_MI\<close> is the callback of the span selector of a line cell.
  The part of the object it reads and writes is the record below: \<open>mask\<close> is the array
  \<open>self.mask\<close> (the six band wavelengths of the current line, indices 0 to 5 holding
  \<open>w1\<close> to \<open>w6\<close>), \<open>line\<close> the current label, \<open>rest_frame\<close> the attribute
  \<open>self._rest_frame\<close> (\<open>None\<close>, \<open>True\<close> or \<open>False\<close>), \<open>redshift\<close> the spectrum's
  redshift and \<open>log_df\<close> (the source's \<open>self.log\<close>) the columns \<open>w1\<close> to \<open>w6\<close> of the lines log, by label.  What the
  callback prints or logs is appended to \<open>notices\<close>.  Wavelengths are real numbers:
  the callback only compares them and, outside the rest frame, divides them by
  \<open>1 + redshift\<close>.  Writing the log file (\<open>save_or_clear_log\<close>) and redrawing the cell
  do not change the record and are left out.
\<close>

datatype notice =
    MaskRemoved string
  | UnsuccessfulSelection string real real

record bands_state =
  mask :: "real list"
  line :: string
  rest_frame :: "bool option"
  redshift :: real
  log_df :: "string \<rightharpoonup> real list"
  notices :: "notice list"

definition to_rest_frame :: "bands_state \<Rightarrow> real \<Rightarrow> real \<Rightarrow> py_error + real \<times> real" where
  \<comment> \<open>\<open>if self._rest_frame is False: w_low, w_high = w_low/(1 + z), w_high/(1 + z)\<close>\<close>
  "to_rest_frame st w_low w_high =
     (if rest_frame st = Some False
      then (if 1 + redshift st = 0 then Inl ZeroDivisionError
            else Inr (w_low / (1 + redshift st), w_high / (1 + redshift st)))
      else Inr (w_low, w_high))"

definition select_band :: "real list \<Rightarrow> string \<Rightarrow> real \<Rightarrow> real \<Rightarrow> real list \<times> notice list" where
  \<comment> \<open>the \<open>if\<close>/\<open>elif\<close> chain under \<open>if self.mask.size == 6\<close>, in the source's order\<close>
  "select_band m l w_low w_high =
     (if w_low > m ! 1 \<and> w_high < m ! 4 then (m[2 := w_low, 3 := w_high], [])
      else if w_low < m ! 2 \<and> w_high < m ! 2 then (m[0 := w_low, 1 := w_high], [])
      else if w_low > m ! 3 \<and> w_high > m ! 3 then (m[4 := w_low, 5 := w_high], [])
      else if w_low < m ! 0 \<and> w_high > m ! 5 then (m, [MaskRemoved l])
      else (m, [UnsuccessfulSelection l w_low w_high]))"

definition loc_assign_bands :: "real list \<Rightarrow> py_error + real list" where
  \<comment> \<open>\<open>self.log.loc[self.line, 'w1':'w6'] = self.mask\<close>: six values fill the six columns,
      one value is broadcast, any other number of values is refused by pandas\<close>
  "loc_assign_bands m =
     (if length m = 6 then Inr m
      else if length m = 1 then Inr (replicate 6 (hd m))
      else Inl ValueError)"

definition on_select_MI :: "bands_state \<Rightarrow> real \<Rightarrow> real \<Rightarrow> py_error + bands_state" where
  "on_select_MI st w_low w_high =
     (if w_low \<noteq> w_high then
        (case to_rest_frame st w_low w_high of
           Inl e \<Rightarrow> Inl e
         | Inr (lo, hi) \<Rightarrow>
            (let (m, out) = (if length (mask st) = 6 then select_band (mask st) (line st) lo hi
                             else (mask st, []))
             in case loc_assign_bands m of
                  Inl e \<Rightarrow> Inl e
                | Inr row \<Rightarrow>
                    Inr (st\<lparr>mask := m, log_df := (log_df st)(line st \<mapsto> row),
                            notices := notices st @ out\<rparr>)))
      else Inr st)"

definition band_1_6 :: bands_state where
  \<comment> \<open>the band of the examples: the six wavelengths 1 to 6, shown in the rest frame\<close>
  "band_1_6 = \<lparr>mask = [1, 2, 3, 4, 5, 6], line = ''O3_5007A'', rest_frame = Some True,
               redshift = 0, log_df = Map.empty, notices = []\<rparr>"

section \<open>\<open>tools.py\<close>: walking the flux array from a peak\<close>

text \<open>
  Indexing a one-dimensional numpy array with an integer: an index from \<open>-n\<close> to \<open>-1\<close>
  counts from the end, an index outside \<open>-n \<dots> n - 1\<close> raises \<open>IndexError\<close>.
\<close>

definition np_get :: "'a list \<Rightarrow> int \<Rightarrow> py_error + 'a" where
  "np_get xs i =
     (let n = int (length xs)
      in if 0 \<le> i \<and> i < n then Inr (xs ! nat i)
         else if - n \<le> i \<and> i < 0 then Inr (xs ! nat (n + i))
         else Inl IndexError)"

text \<open>
  \<^verbatim>\<open>
  def compute_line_width(idx_peak, spec_flux, delta_i, min_delta=2, emission_check=True):
      i = idx_peak
      if emission_check:
          while (spec_flux[i] > spec_flux[i + delta_i]) or (np.abs(idx_peak - (i + delta_i)) <= min_delta):
              i += delta_i
      else:
          while (spec_flux[i] < spec_flux[i + delta_i]) or (np.abs(idx_peak - (i + delta_i)) <= min_delta):
              i += delta_i
      return i
  \<close>
  The two loops differ in the comparison only, so one recursive function takes
  \<open>emission_check\<close> along.  The loop need not end (\<open>delta_i = 0\<close>), hence the result is an
  option: \<open>None\<close> is a walk that never returns, \<open>Some (Inl e)\<close> a raised exception and
  \<open>Some (Inr i)\<close> the returned index.
\<close>

partial_function (option) line_width_loop ::
  "int \<Rightarrow> real list \<Rightarrow> int \<Rightarrow> int \<Rightarrow> bool \<Rightarrow> int \<Rightarrow> (py_error + int) option" where
  "line_width_loop idx_peak spec_flux delta_i min_delta emission_check i =
     (case np_get spec_flux i of
        Inl e \<Rightarrow> Some (Inl e)
      | Inr a \<Rightarrow>
         (case np_get spec_flux (i + delta_i) of
            Inl e \<Rightarrow> Some (Inl e)
          | Inr b \<Rightarrow>
             if (if emission_check then a > b else a < b)
                \<or> \<bar>idx_peak - (i + delta_i)\<bar> \<le> min_delta
             then line_width_loop idx_peak spec_flux delta_i min_delta emission_check (i + delta_i)
             else Some (Inr i)))"

declare line_width_loop.simps [code]

definition compute_line_width ::
  "int \<Rightarrow> real list \<Rightarrow> int \<Rightarrow> int \<Rightarrow> bool \<Rightarrow> (py_error + int) option" where
  "compute_line_width idx_peak spec_flux delta_i min_delta emission_check =
     line_width_loop idx_peak spec_flux delta_i min_delta emission_check idx_peak"




section \<open>\<open>plots_interactive.py\<close>: toggling a spaxel of the spatial masks\<close>

text \<open>
  \<^verbatim>\<open>
  def spaxel_selection(self):
      for mask, mask_data in self.masks_dict.items():
          mask_matrix = mask_data[0]
          if mask == self.mask_ext:
              mask_matrix[self.key_coords[0], self.key_coords[1]] = not mask_matrix[self.key_coords[0], self.key_coords[1]]
          else:
              mask_matrix[self.key_coords[0], self.key_coords[1]] = False
  \<close>
  \<open>masks_dict\<close> maps a region name to the pair of its boolean matrix and its header; it
  is a list of items in the dictionary's order, whose names are distinct as the keys of
  a dictionary are.  A matrix is the list of its rows, and each region has a matrix of
  its own.  An index pair is checked against the matrix as
  numpy does for each axis.  The loop writes the matrices in place, so when an index is
  refused the regions already visited stay written: the function returns the
  dictionary together with the exception, if any.
  The loop variable \<open>mask\<close> of the source is written \<open>mask_name\<close>.
\<close>

type_synonym mask_matrix = "bool list list"

definition np_index :: "nat \<Rightarrow> int \<Rightarrow> py_error + nat" where
  \<comment> \<open>the position an integer index denotes on an axis of length \<open>n\<close>\<close>
  "np_index n i =
     (if 0 \<le> i \<and> i < int n then Inr (nat i)
      else if - int n \<le> i \<and> i < 0 then Inr (nat (int n + i))
      else Inl IndexError)"

definition np_get2 :: "mask_matrix \<Rightarrow> int \<Rightarrow> int \<Rightarrow> py_error + bool" where
  \<comment> \<open>\<open>mask_matrix[j, i]\<close>\<close>
  "np_get2 m j i =
     (case np_index (length m) j of
        Inl e \<Rightarrow> Inl e
      | Inr r \<Rightarrow>
         (case np_index (length (m ! r)) i of
            Inl e \<Rightarrow> Inl e
          | Inr c \<Rightarrow> Inr (m ! r ! c)))"

definition np_set2 :: "mask_matrix \<Rightarrow> int \<Rightarrow> int \<Rightarrow> bool \<Rightarrow> py_error + mask_matrix" where
  \<comment> \<open>\<open>mask_matrix[j, i] = v\<close>\<close>
  "np_set2 m j i v =
     (case np_index (length m) j of
        Inl e \<Rightarrow> Inl e
      | Inr r \<Rightarrow>
         (case np_index (length (m ! r)) i of
            Inl e \<Rightarrow> Inl e
          | Inr c \<Rightarrow> Inr (m[r := (m ! r)[c := v]])))"

record 'h cube_state =
  masks_dict :: "(string \<times> mask_matrix \<times> 'h) list"
  mask_ext :: string
  key_coords :: "int \<times> int"

fun spaxel_loop ::
  "string \<Rightarrow> int \<times> int \<Rightarrow> (string \<times> mask_matrix \<times> 'h) list
   \<Rightarrow> (string \<times> mask_matrix \<times> 'h) list \<times> py_error option" where
  "spaxel_loop ext kc [] = ([], None)"
| "spaxel_loop ext kc ((mask_name, mask_matrix, hdr) # items) =
     (case (if mask_name = ext
            then (case np_get2 mask_matrix (fst kc) (snd kc) of
                    Inl e \<Rightarrow> Inl e
                  | Inr b \<Rightarrow> np_set2 mask_matrix (fst kc) (snd kc) (\<not> b))
            else np_set2 mask_matrix (fst kc) (snd kc) False) of
        Inl e \<Rightarrow> ((mask_name, mask_matrix, hdr) # items, Some e)
      | Inr m' \<Rightarrow>
         (let (items', err) = spaxel_loop ext kc items
          in ((mask_name, m', hdr) # items', err)))"

definition spaxel_selection :: "'h cube_state \<Rightarrow> 'h cube_state \<times> py_error option" where
  "spaxel_selection st =
     (let (items', err) = spaxel_loop (mask_ext st) (key_coords st) (masks_dict st)
      in (st\<lparr>masks_dict := items'\<rparr>, err))"

text \<open>
  Membership of the spaxel in row \<open>r\<close> and column \<open>c\<close> in a matrix and in the region of a
  name, and the invariant that no spaxel belongs to two regions.
\<close>

definition in_matrix :: "mask_matrix \<Rightarrow> nat \<Rightarrow> nat \<Rightarrow> bool" where
  "in_matrix m r c \<longleftrightarrow> r < length m \<and> c < length (m ! r)"

definition member_of :: "(string \<times> mask_matrix \<times> 'h) list \<Rightarrow> string \<Rightarrow> nat \<Rightarrow> nat \<Rightarrow> bool" where
  "member_of items k r c =
     (case map_of items k of
        None \<Rightarrow> False
      | Some (m, _) \<Rightarrow> in_matrix m r c \<and> m ! r ! c)"

definition exclusive :: "(string \<times> mask_matrix \<times> 'h) list \<Rightarrow> bool" where
  "exclusive items \<longleftrightarrow>
     (\<forall>r c k1 k2. member_of items k1 r c \<longrightarrow> member_of items k2 r c \<longrightarrow> k1 = k2)"

definition toggled :: "string \<Rightarrow> nat \<Rightarrow> nat \<Rightarrow> string \<Rightarrow> mask_matrix \<Rightarrow> mask_matrix" where
  \<comment> \<open>the matrix of region \<open>k\<close> after a toggle at row \<open>r\<close>, column \<open>c\<close> with \<open>ext\<close> selected\<close>
  "toggled ext r c k m = m[r := (m ! r)[c := (k = ext \<and> \<not> m ! r ! c)]]"

definition two_masks :: "unit cube_state" where
  \<comment> \<open>two regions on a 2 by 2 image; the spaxel (0, 1) of the region MASK\_0 is clicked
      while MASK\_1 is the selected region\<close>
  "two_masks =
     \<lparr>masks_dict = [(''MASK_0'', [[False, True], [False, False]], ()),
                    (''MASK_1'', [[False, False], [True, False]], ())],
      mask_ext = ''MASK_1'', key_coords = (0, 1)\<rparr>"

section \<open>\<open>io.py\<close>: loading a configuration file\<close>

text \<open>
  \<open>load_cfg\<close> reads the file with \<open>configparser\<close>, converts every option with
  \<open>format_option_value\<close> and, when \<open>obj_list\<close> is given, overlays each object's section on
  the default section.  The embedding takes what lies outside \<open>load_cfg\<close> as arguments:
  \<^item> \<open>cfg_file\<close> is what reading the file gives: \<open>None\<close> when \<open>Path(file_address).is_file()\<close>
    is false, otherwise the exception raised by that test or by \<open>cfg.read\<close>, or the
    sections in the order of
    \<open>cfg.sections()\<close>, each with its options as \<open>cfg.options(section)\<close> and
    \<open>cfg[section][option_key]\<close> give them;
  \<^item> \<open>fmt entry_value key_label section_label\<close> is \<open>format_option_value\<close>, which returns
    a value or raises;
  \<^item> \<open>objects_of v\<close> is the iteration \<open>for obj in objList\<close> over a configuration value,
    giving the text \<open>f'{obj}'\<close> of each element, or the exception for a value that cannot
    be iterated.
  The dictionaries \<open>cfg_lime\<close> and its sections are maps.  \<open>copy.deepcopy\<close> is the identity
  on values.
\<close>

type_synonym raw_cfg = "(string \<times> (string \<times> string) list) list"

type_synonym 'v cfg_section = "string \<rightharpoonup> 'v"

type_synonym 'v cfg = "string \<rightharpoonup> 'v cfg_section"

datatype obj_list_arg =
    Obj_None
  | Obj_Dict "(string \<times> string) list"
  | Obj_Sequence "string list"
  | Obj_Other

fun format_options ::
  "(string \<Rightarrow> string \<Rightarrow> string \<Rightarrow> py_error + 'v) \<Rightarrow> string \<Rightarrow> (string \<times> string) list
   \<Rightarrow> 'v cfg_section \<Rightarrow> py_error + 'v cfg_section" where
  "format_options fmt section [] d = Inr d"
| "format_options fmt section ((option_key, option_value) # opts) d =
     (case fmt option_value option_key section of
        Inl e \<Rightarrow> Inl e
      | Inr v \<Rightarrow> format_options fmt section opts (d(option_key \<mapsto> v)))"

fun format_sections ::
  "(string \<Rightarrow> string \<Rightarrow> string \<Rightarrow> py_error + 'v) \<Rightarrow> raw_cfg \<Rightarrow> 'v cfg \<Rightarrow> py_error + 'v cfg" where
  "format_sections fmt [] cfg_lime = Inr cfg_lime"
| "format_sections fmt ((section, opts) # rest) cfg_lime =
     (case format_options fmt section opts Map.empty of
        Inl e \<Rightarrow> Inl e
      | Inr d \<Rightarrow> format_sections fmt rest (cfg_lime(section \<mapsto> d)))"

fun locate_objects :: "'v cfg \<Rightarrow> (string \<times> string) list \<Rightarrow> 'v option \<Rightarrow> py_error + 'v option" where
  \<comment> \<open>\<open>for sec_objs, opt_objs in obj_list.items()\<close>; the third argument is \<open>objList\<close>, unbound
      (\<open>None\<close>) before the first pass\<close>
  "locate_objects cfg_lime [] objList = Inr objList"
| "locate_objects cfg_lime ((sec_objs, opt_objs) # rest) objList =
     (case cfg_lime sec_objs of
        None \<Rightarrow> Inl AssertionError
      | Some sec \<Rightarrow>
         (case sec opt_objs of
            None \<Rightarrow> Inl AssertionError
          | Some v \<Rightarrow> locate_objects cfg_lime rest (Some v)))"

definition local_label :: "string \<Rightarrow> string" where
  \<comment> \<open>\<open>f'{obj}_line_fitting'\<close>\<close>
  "local_label obj = obj @ ''_line_fitting''"

fun overlay_objects :: "'v cfg_section \<Rightarrow> string list \<Rightarrow> 'v cfg \<Rightarrow> 'v cfg" where
  \<comment> \<open>\<open>for obj in objList\<close>, with \<open>global_cfg\<close> taken before the loop\<close>
  "overlay_objects global_cfg [] cfg_lime = cfg_lime"
| "overlay_objects global_cfg (obj # objs) cfg_lime =
     (let global_dict = global_cfg;
          local_dict = (case cfg_lime (local_label obj) of Some d \<Rightarrow> d | None \<Rightarrow> Map.empty)
      in overlay_objects global_cfg objs
           (cfg_lime(local_label obj \<mapsto> global_dict ++ local_dict)))"

definition load_cfg ::
  "(string \<Rightarrow> string \<Rightarrow> string \<Rightarrow> py_error + 'v) \<Rightarrow> ('v \<Rightarrow> py_error + string list)
   \<Rightarrow> (py_error + raw_cfg) option \<Rightarrow> obj_list_arg \<Rightarrow> string \<Rightarrow> py_error + 'v cfg" where
  "load_cfg fmt objects_of cfg_file obj_list def_cfg_sec =
     (case cfg_file of
        None \<Rightarrow> Inl LiMe_Error
      | Some (Inl e) \<Rightarrow> Inl e
      | Some (Inr raw) \<Rightarrow>
         (case format_sections fmt raw Map.empty of
            Inl e \<Rightarrow> Inl e
          | Inr cfg_lime \<Rightarrow>
             (if obj_list \<noteq> Obj_None then
                (case cfg_lime def_cfg_sec of
                   None \<Rightarrow> Inl AssertionError
                 | Some global_cfg \<Rightarrow>
                    (case (case obj_list of
                             Obj_Dict items \<Rightarrow>
                               (case locate_objects cfg_lime items None of
                                  Inl e \<Rightarrow> Inl e
                                | Inr None \<Rightarrow> Inl UnboundLocalError
                                | Inr (Some v) \<Rightarrow> objects_of v)
                           | Obj_Sequence objs \<Rightarrow> Inr objs
                           | _ \<Rightarrow> Inl RuntimeError) of
                       Inl e \<Rightarrow> Inl e
                     | Inr objList \<Rightarrow> Inr (overlay_objects global_cfg objList cfg_lime)))
              else Inr cfg_lime)))"

definition local_of :: "'v cfg \<Rightarrow> string \<Rightarrow> 'v cfg_section" where
  \<comment> \<open>an object's own section in the file, empty when the file has none\<close>
  "local_of cfg_lime obj = (case cfg_lime (local_label obj) of Some d \<Rightarrow> d | None \<Rightarrow> Map.empty)"

definition example_cfg :: raw_cfg where
  \<comment> \<open>the default section \<open>{a: 1, b: 2}\<close> and the section \<open>{b: 3, c: 4}\<close> of object \<open>obj\<close>\<close>
  "example_cfg =
     [(''default_line_fitting'', [(''a'', ''1''), (''b'', ''2'')]),
      (''obj_line_fitting'', [(''b'', ''3''), (''c'', ''4'')])]"

section \<open>\<open>io.py\<close>: reading and writing a lines log\<close>

subsection \<open>Strings and paths\<close>

fun split_on :: "'a \<Rightarrow> 'a list \<Rightarrow> 'a list list" where
  \<comment> \<open>\<open>s.split(c)\<close> for a separator of one character\<close>
  "split_on c [] = [[]]"
| "split_on c (x # xs) =
     (if x = c then [] # split_on c xs
      else (case split_on c xs of
              w # ws \<Rightarrow> (x # w) # ws
            | [] \<Rightarrow> [[x]]))"

definition occurrences :: "'a list \<Rightarrow> 'a list \<Rightarrow> nat list" where
  \<comment> \<open>the positions at which \<open>sub\<close> occurs in \<open>s\<close>, in increasing order\<close>
  "occurrences s sub = [i \<leftarrow> [0 ..< Suc (length s)]. take (length sub) (drop i s) = sub
                                                   \<and> i + length sub \<le> length s]"

definition py_find :: "'a list \<Rightarrow> 'a list \<Rightarrow> int" where
  \<comment> \<open>\<open>s.find(sub)\<close>\<close>
  "py_find s sub = (case occurrences s sub of [] \<Rightarrow> - 1 | i # _ \<Rightarrow> int i)"

definition py_rfind :: "'a list \<Rightarrow> 'a list \<Rightarrow> int" where
  \<comment> \<open>\<open>s.rfind(sub)\<close>\<close>
  "py_rfind s sub = (case rev (occurrences s sub) of [] \<Rightarrow> - 1 | i # _ \<Rightarrow> int i)"

definition path_name :: "string \<Rightarrow> string" where
  \<comment> \<open>\<open>Path(p).name\<close>: the last component of the path; empty components and \<open>.\<close>
      components are dropped when the path is parsed\<close>
  "path_name p =
     (case rev [c \<leftarrow> split_on CHR ''/'' p. c \<noteq> [] \<and> c \<noteq> ''.''] of
        [] \<Rightarrow> []
      | c # _ \<Rightarrow> c)"

definition path_suffix :: "string \<Rightarrow> string" where
  \<comment> \<open>\<open>Path(p).suffix\<close>: the name from its last dot on, when that dot is neither the
      first nor the last character of the name\<close>
  "path_suffix p =
     (let name = path_name p; i = py_rfind name ''.''
      in if 0 < i \<and> i < int (length name) - 1 then py_slice_from name i else [])"

definition py_or :: "string \<Rightarrow> string \<Rightarrow> string" where
  \<comment> \<open>\<open>a or b\<close> on strings: \<open>a\<close> unless it is empty\<close>
  "py_or a b = (if a \<noteq> [] then a else b)"

subsection \<open>The libraries\<close>

text \<open>
  The lines log is a pandas table, read and written by pandas, astropy and asdf.  The
  embedding does not look inside a table: its type \<open>'df\<close> is a parameter, and what the
  functions of \<open>io.py\<close> ask of the libraries and of the file system is the record
  \<open>library\<close>.  A read is described by the call the source makes (\<open>read_call\<close>) and
  \<open>run_read\<close> gives its outcome, the statements that follow the call in the same
  branch (\<open>to_pandas\<close>, \<open>set_index('index')\<close>) included.  A write is described by the
  call the source makes (\<open>save_action\<close>); carrying it out is the library's.
  \<open>is_file p\<close> is \<open>Path(p).is_file()\<close>: the answer, or the \<open>OSError\<close> that \<open>pathlib\<close> lets
  through when the file system refuses to look the path up for another reason than a
  missing file (a name that is too long, a directory that may not be searched).
  \<open>set_index\<close> is \<open>log.set_index(sample_levels)\<close>, which raises for an empty list of
  levels.
  The source's variable \<open>log\<close> is written \<open>the_log\<close>, and what the source hands to its
  logger is returned as a list of \<open>log_record\<close>s beside the result.
\<close>

datatype read_call =
    Table_read string string
      \<comment> \<open>\<open>Table.read(log_path, ext, character_as_bytes=False)\<close>\<close>
  | Read_excel string string nat nat
      \<comment> \<open>\<open>pd.read_excel(log_path, sheet_name=ext, header=0, index_col=0)\<close>\<close>
  | Asdf_open string string
      \<comment> \<open>\<open>asdf.open(log_path)\<close> and \<open>af[ext]\<close>\<close>
  | Read_csv string nat nat
      \<comment> \<open>\<open>pd.read_csv(log_path, delim_whitespace=True, header=0, index_col=0)\<close>\<close>

datatype log_record =
    Critical_no_log string
  | Warning_unrecognised string
  | Info_no_measurements
  | Warning_no_openpyxl string

datatype 'df save_action =
    Not_saved
  | Write_txt string 'df
  | Table_fluxes string 'df
  | Write_fits string string 'df
  | Write_excel string string 'df
  | Write_asdf string string 'df

record 'df library =
  is_file :: "string \<Rightarrow> py_error + bool"
  parent_exists :: "string \<Rightarrow> bool"
  run_read :: "read_call \<Rightarrow> py_error + 'df"
  columns_of :: "'df \<Rightarrow> string list"
  set_index :: "'df \<Rightarrow> string list \<Rightarrow> py_error + 'df"
  n_rows :: "'df \<Rightarrow> nat"
  is_multi_index :: "'df \<Rightarrow> bool"
  reset_index :: "'df \<Rightarrow> py_error + 'df"
  take_columns :: "'df \<Rightarrow> string list \<Rightarrow> py_error + 'df"
  openpyxl_imported :: bool

subsection \<open>\<open>load_log\<close>\<close>

text \<open>
  The branch of \<open>load_log\<close> on the suffix of the file, in the source's order.  The test
  of the spreadsheet branch is \<open>file_type in ['.xlsx' or '.xls']\<close>.
\<close>

definition log_reader :: "string \<Rightarrow> string \<Rightarrow> string \<Rightarrow> read_call \<times> log_record list" where
  "log_reader log_path file_type ext =
     (if file_type = ''.fits'' then (Table_read log_path ext, [])
      else if file_type \<in> set [py_or ''.xlsx'' ''.xls''] then (Read_excel log_path ext 0 0, [])
      else if file_type = ''.asdf'' then (Asdf_open log_path ext, [])
      else if file_type = ''.txt'' then (Read_csv log_path 0 0, [])
      else (Read_csv log_path 0 0, [Warning_unrecognised file_type]))"

definition load_log ::
  "'df library \<Rightarrow> string \<Rightarrow> string \<Rightarrow> string list \<Rightarrow> log_record list \<times> (py_error + 'df)" where
  "load_log lib file_address ext sample_levels =
     (let log_path = file_address in
      case is_file lib log_path of
        Inl e \<Rightarrow> ([], Inl e)
      | Inr found \<Rightarrow>
         (let missing = (if \<not> found then [Critical_no_log file_address] else []);
              file_type = path_suffix log_path;
              (call, warned) = log_reader log_path file_type ext
          in (missing @ warned,
              (case run_read lib call of
                 Inl e \<Rightarrow> (if e = ValueError then Inl SystemExit else Inl e)
               | Inr the_log \<Rightarrow>
                   (if length [c \<leftarrow> columns_of lib the_log. c \<in> set sample_levels]
                         = length sample_levels
                    then set_index lib the_log sample_levels
                    else Inr the_log)))))"

subsection \<open>\<open>save_log\<close>\<close>

text \<open>
  \<open>parameters\<close> is \<open>None\<close> for the default \<open>'all'\<close> and the list of column names
  otherwise.  \<open>dtype_fields\<close> are the field names of \<open>_LOG_DTYPES_REC\<close>, which the source
  reads from a table of the package (\<open>resources/types_params.txt\<close>).
\<close>

definition select_parameters ::
  "'df library \<Rightarrow> string list \<Rightarrow> 'df \<Rightarrow> string list option \<Rightarrow> py_error + 'df" where
  "select_parameters lib dtype_fields the_log parameters =
     (case parameters of
        None \<Rightarrow> Inr the_log
      | Some parameters_list \<Rightarrow>
         (case take_columns lib the_log parameters_list of
            Inl e \<Rightarrow> Inl e
          | Inr lines_log \<Rightarrow>
              (if \<forall>param \<in> set parameters_list. param \<in> set dtype_fields
               then Inr lines_log else Inl KeyError)))"

definition save_log ::
  "'df library \<Rightarrow> string list \<Rightarrow> 'df \<Rightarrow> string \<Rightarrow> string \<Rightarrow> string list option
   \<Rightarrow> log_record list \<times> (py_error + 'df save_action)" where
  "save_log lib dtype_fields log_dataframe file_address ext parameters =
     (let log_path = file_address in
      if \<not> parent_exists lib log_path then ([], Inl AssertionError)
      else
        (let file_type = path_suffix log_path in
         if n_rows lib log_dataframe > 0 then
           (case (if is_multi_index lib log_dataframe then reset_index lib log_dataframe
                  else Inr log_dataframe) of
              Inl e \<Rightarrow> ([], Inl e)
            | Inr the_log \<Rightarrow>
               (case select_parameters lib dtype_fields the_log parameters of
                  Inl e \<Rightarrow> ([], Inl e)
                | Inr lines_log \<Rightarrow>
                   (if file_type = ''.txt'' then ([], Inr (Write_txt log_path lines_log))
                    else if file_type = ''.pdf'' then ([], Inr (Table_fluxes log_path lines_log))
                    else if file_type = ''.fits'' then ([], Inr (Write_fits log_path ext lines_log))
                    else if file_type = ''.xlsx'' \<or> file_type = ''.xls'' then
                      (if openpyxl_imported lib then ([], Inr (Write_excel log_path ext lines_log))
                       else ([], Inl NameError))
                    else if file_type = ''.asdf'' then ([], Inr (Write_asdf log_path ext lines_log))
                    else ([], Inl LiMe_Error))))
         else ([Info_no_measurements], Inr Not_saved)))"

subsection \<open>\<open>check_file_dataframe\<close>\<close>

text \<open>
  The values \<open>check_file_dataframe\<close> can be given, with the class of each, and the classes
  \<open>variable_type\<close> can name.  \<open>Path(input)\<close> accepts a string or a path and raises
  \<open>TypeError\<close> on any other value.  The test \<open>Path(input).is_file()\<close> stands outside any
  \<open>try\<close>, so an \<open>OSError\<close> of the test leaves the function.
\<close>

datatype 'df py_value =
    Frame 'df
  | Str string
  | Path_value string
  | None_value
  | Int_value int

datatype py_type = T_DataFrame | T_str | T_Path | T_NoneType | T_int | T_object

fun type_of :: "'df py_value \<Rightarrow> py_type" where
  "type_of (Frame _) = T_DataFrame"
| "type_of (Str _) = T_str"
| "type_of (Path_value _) = T_Path"
| "type_of None_value = T_NoneType"
| "type_of (Int_value _) = T_int"

definition isinstance :: "'df py_value \<Rightarrow> py_type \<Rightarrow> bool" where
  "isinstance v t \<longleftrightarrow> t = T_object \<or> type_of v = t"

fun as_path :: "'df py_value \<Rightarrow> py_error + string" where
  \<comment> \<open>\<open>Path(input)\<close>\<close>
  "as_path (Str s) = Inr s"
| "as_path (Path_value p) = Inr p"
| "as_path _ = Inl TypeError"

definition check_file_dataframe ::
  "'df library \<Rightarrow> 'df py_value \<Rightarrow> py_type \<Rightarrow> string \<Rightarrow> string list
   \<Rightarrow> log_record list \<times> (py_error + 'df py_value)" where
  "check_file_dataframe lib input variable_type ext sample_levels =
     (if isinstance input variable_type then ([], Inr input)
      else (case as_path input of
              Inl e \<Rightarrow> ([], Inl e)
            | Inr p \<Rightarrow>
               (case is_file lib p of
                  Inl e \<Rightarrow> ([], Inl e)
                | Inr found \<Rightarrow>
                   (if found then
                      (case load_log lib p ext sample_levels of
                         (msgs, Inl e) \<Rightarrow> (msgs, Inl e)
                       | (msgs, Inr the_log) \<Rightarrow> (msgs, Inr (Frame the_log)))
                    else ([], Inr None_value)))))"

definition one_log_library :: "nat library" where
  \<comment> \<open>a file system with the single file \<open>lines_log.txt\<close>, which refuses to look up a
      name of more than 255 characters; a table is known by its number of rows, and
      every read gives a table of three rows\<close>
  "one_log_library =
     \<lparr>is_file = (\<lambda>p. if 255 < length p then Inl OSError else Inr (p = ''lines_log.txt'')),
      parent_exists = (\<lambda>p. True),
      run_read = (\<lambda>c. Inr 3), columns_of = (\<lambda>d. []),
      set_index = (\<lambda>d levels. if levels = [] then Inl ValueError else Inr d),
      n_rows = (\<lambda>d. d), is_multi_index = (\<lambda>d. False), reset_index = Inr,
      take_columns = (\<lambda>d ps. Inr d), openpyxl_imported = True\<rparr>"

section \<open>\<open>tools.py\<close>: decomposing a line label\<close>

subsection \<open>Strings, numbers and dictionaries\<close>

definition backslash :: char where
  "backslash = CHR 0x5C"

definition endswith :: "'a list \<Rightarrow> 'a list \<Rightarrow> bool" where
  \<comment> \<open>\<open>s.endswith(u)\<close>\<close>
  "endswith s u \<longleftrightarrow> length u \<le> length s \<and> drop (length s - length u) s = u"

definition contains :: "'a list \<Rightarrow> 'a list \<Rightarrow> bool" where
  \<comment> \<open>\<open>sub in s\<close> on strings\<close>
  "contains s sub \<longleftrightarrow> occurrences s sub \<noteq> []"

definition is_digit :: "char \<Rightarrow> bool" where
  "is_digit c \<longleftrightarrow> 48 \<le> (of_char c :: nat) \<and> (of_char c :: nat) \<le> 57"

definition digit_value :: "char \<Rightarrow> nat" where
  "digit_value c = of_char c - 48"

definition py_int_last :: "string \<Rightarrow> py_error + int" where
  \<comment> \<open>\<open>int(ion[-1])\<close>: the last character read as a decimal digit\<close>
  "py_int_last s =
     (if s = [] then Inl IndexError
      else if is_digit (last s) then Inr (int (digit_value (last s)))
      else Inl ValueError)"

definition digits_value :: "string \<Rightarrow> nat" where
  "digits_value s = foldl (\<lambda>n c. 10 * n + digit_value c) 0 s"

definition unsigned_decimal :: "string \<Rightarrow> py_error + real" where
  "unsigned_decimal s =
     (case split_on CHR ''.'' s of
        [a] \<Rightarrow>
          (if a \<noteq> [] \<and> list_all is_digit a then Inr (real (digits_value a)) else Inl ValueError)
      | [a, b] \<Rightarrow>
          (if (a \<noteq> [] \<or> b \<noteq> []) \<and> list_all is_digit a \<and> list_all is_digit b
           then Inr (real (digits_value a) + real (digits_value b) / 10 ^ length b)
           else Inl ValueError)
      | _ \<Rightarrow> Inl ValueError)"

definition decimal_float :: "string \<Rightarrow> py_error + real" where
  \<comment> \<open>\<open>float(s)\<close> on a decimal numeral with an optional sign: digits, at most one point
      and no exponent.  The other spellings \<open>float\<close> accepts (an exponent, \<open>inf\<close>, \<open>nan\<close>,
      blanks around the numeral, underscores between digits) are refused here, so this
      function stands for \<open>float\<close> on plain numerals only.\<close>
  "decimal_float s =
     (case s of
        [] \<Rightarrow> Inl ValueError
      | c # cs \<Rightarrow>
          (if c = CHR ''-'' then map_sum id uminus (unsigned_decimal cs)
           else if c = CHR ''+'' then unsigned_decimal cs
           else unsigned_decimal s))"

definition dict_set :: "('k \<times> 'v) list \<Rightarrow> 'k \<Rightarrow> 'v \<Rightarrow> ('k \<times> 'v) list" where
  \<comment> \<open>\<open>d[k] = v\<close> on a dictionary kept as the list of its items in insertion order\<close>
  "dict_set d k v =
     (if k \<in> fst ` set d then map (\<lambda>(k', v'). if k' = k then (k', v) else (k', v')) d
      else d @ [(k, v)])"

subsection \<open>Roman numerals\<close>

text \<open>
  \<^verbatim>\<open>
  def int_to_roman(num):
      i, roman_num = 0, ''
      while num > 0:
          for _ in range(num // VAL_LIST[i]):
              roman_num += SYB_LIST[i]
              num -= VAL_LIST[i]
          i += 1
      return roman_num
  \<close>
  The loop walks \<open>VAL_LIST\<close> and \<open>SYB_LIST\<close> together; reading past their end would raise
  \<open>IndexError\<close>.
\<close>

definition VAL_LIST :: "int list" where
  "VAL_LIST = [1000, 900, 500, 400, 100, 90, 50, 40, 10, 9, 5, 4, 1]"

definition SYB_LIST :: "string list" where
  "SYB_LIST = [''M'', ''CM'', ''D'', ''CD'', ''C'', ''XC'', ''L'', ''XL'', ''X'', ''IX'', ''V'', ''IV'', ''I'']"

fun roman_loop :: "int \<Rightarrow> (int \<times> string) list \<Rightarrow> string \<Rightarrow> py_error + string" where
  "roman_loop num [] roman_num = (if num > 0 then Inl IndexError else Inr roman_num)"
| "roman_loop num ((v, syb) # rest) roman_num =
     (if num > 0
      then roman_loop (num - (num div v) * v) rest
             (roman_num @ concat (replicate (nat (num div v)) syb))
      else Inr roman_num)"

definition int_to_roman :: "int \<Rightarrow> py_error + string" where
  "int_to_roman num = roman_loop num (zip VAL_LIST SYB_LIST) []"

subsection \<open>\<open>label_decomposition\<close>\<close>

definition UNITS_LATEX_DICT :: "(string \<times> string) list" where
  "UNITS_LATEX_DICT =
     [(''A'', backslash # ''AA''),
      (''um'', backslash # ''mu'' @ backslash # ''!m''),
      (''nm'', ''nm''),
      (''erg/cm^2/s/A'', ''erg'' @ backslash # '',cm^{-2} s^{-1} '' @ backslash # ''AA^{-1}''),
      (''Jy'', ''Jy''),
      (''mJy'', ''mJy'')]"

text \<open>
  The body of the loop \<open>for line_i in lineComponents\<close> up to the label \<open>comp_line\<close> of the
  component: it gives the ion, the text of the wavelength and the label, or the
  exception raised on the way.
\<close>

definition component_label ::
  "string list \<Rightarrow> string \<Rightarrow> string \<Rightarrow> py_error + string \<times> string \<times> string" where
  "component_label recomb_atom units_wave line_i =
     (let kinem_comp_check = (count_list line_i CHR ''_'' \<noteq> 1);
          ion = (if contains line_i ''r_'' then py_slice line_i 0 (py_find line_i ''_'' - 1)
                 else py_slice line_i 0 (py_find line_i ''_''))
      in case (if endswith line_i units_wave \<or> kinem_comp_check
               then (case map_of UNITS_LATEX_DICT units_wave of
                       None \<Rightarrow> Inl KeyError
                     | Some units \<Rightarrow>
                         Inr (py_slice line_i (py_find line_i ''_'' + 1) (py_rfind line_i units_wave),
                              units,
                              (if kinem_comp_check
                               then ''-'' @ py_slice_from line_i (py_rfind line_i ''_'' + 1)
                               else [])))
               else Inr (py_slice_from line_i (py_find line_i ''_'' + 1), [], [])) of
           Inl e \<Rightarrow> Inl e
         | Inr (wavelength, units, ext) \<Rightarrow>
            (let atom = py_slice_to ion (- 1)
             in case py_int_last ion of
                  Inl e \<Rightarrow> Inl e
                | Inr ionization \<Rightarrow>
                   (case int_to_roman ionization of
                      Inl e \<Rightarrow> Inl e
                    | Inr ionizationRoman \<Rightarrow>
                       (if ion \<in> set recomb_atom
                        then Inr (ion, wavelength,
                                  atom @ ionizationRoman @ backslash # '','' @ wavelength @ units @ ext)
                        else Inr (ion, wavelength,
                                  ''['' @ atom @ ionizationRoman @ '']'' @ backslash # '',''
                                    @ wavelength @ units @ ext)))))"

record label_dicts =
  ion_dict :: "(string \<times> string) list"
  wave_dict :: "(string \<times> real) list"
  latexLabel_dict :: "(string \<times> string) list"

fun components_loop ::
  "(string \<Rightarrow> py_error + real) \<Rightarrow> string list \<Rightarrow> string \<Rightarrow> bool \<Rightarrow> string \<Rightarrow> string
   \<Rightarrow> string list \<Rightarrow> label_dicts \<times> string \<Rightarrow> py_error + label_dicts \<times> string" where
  "components_loop to_float recomb_atom units_wave mixture_line lineLabel lineRef [] acc = Inr acc"
| "components_loop to_float recomb_atom units_wave mixture_line lineLabel lineRef (line_i # rest)
       (d, latexLabel) =
     (case component_label recomb_atom units_wave line_i of
        Inl e \<Rightarrow> Inl e
      | Inr (ion, wavelength, comp_line) \<Rightarrow>
         (if mixture_line then
            (let joined = (if length latexLabel = 0 then comp_line
                           else latexLabel @ ''+'' @ comp_line)
             in if py_slice_to lineLabel (- 2) = line_i then
                  (case to_float wavelength of
                     Inl e \<Rightarrow> Inl e
                   | Inr w \<Rightarrow>
                       components_loop to_float recomb_atom units_wave mixture_line lineLabel lineRef rest
                         (d\<lparr>ion_dict := dict_set (ion_dict d) lineRef ion,
                            wave_dict := dict_set (wave_dict d) lineRef w\<rparr>, joined))
                else
                  components_loop to_float recomb_atom units_wave mixture_line lineLabel lineRef rest
                    (d, joined))
          else
            (case to_float wavelength of
               Inl e \<Rightarrow> Inl e
             | Inr w \<Rightarrow>
                 components_loop to_float recomb_atom units_wave mixture_line lineLabel lineRef rest
                   (d\<lparr>ion_dict := dict_set (ion_dict d) line_i ion,
                      wave_dict := dict_set (wave_dict d) line_i w,
                      latexLabel_dict := dict_set (latexLabel_dict d) line_i
                                           (''$'' @ comp_line @ ''$'')\<rparr>, latexLabel))))"

fun lines_loop ::
  "(string \<Rightarrow> py_error + real) \<Rightarrow> string list \<Rightarrow> (string \<rightharpoonup> string)
   \<Rightarrow> (string \<rightharpoonup> string \<times> real \<times> string) \<Rightarrow> string
   \<Rightarrow> string list \<Rightarrow> label_dicts \<Rightarrow> py_error + label_dicts" where
  "lines_loop to_float recomb_atom comp_dict user_format units_wave [] d = Inr d"
| "lines_loop to_float recomb_atom comp_dict user_format units_wave (lineLabel # rest) d =
     (case user_format lineLabel of
        Some (u_ion, u_wave, u_latex) \<Rightarrow>
          lines_loop to_float recomb_atom comp_dict user_format units_wave rest
            (d\<lparr>ion_dict := dict_set (ion_dict d) lineLabel u_ion,
               wave_dict := dict_set (wave_dict d) lineLabel u_wave,
               latexLabel_dict := dict_set (latexLabel_dict d) lineLabel u_latex\<rparr>)
      | None \<Rightarrow>
         (let mixture_line = (py_slice_from lineLabel (- 2) = ''_b''
                              \<or> py_slice_from lineLabel (- 2) = ''_m'');
              lineRef = (if mixture_line
                         then (case comp_dict lineLabel of
                                 Some ref \<Rightarrow> ref
                               | None \<Rightarrow> py_slice_to lineLabel (- 2))
                         else lineLabel);
              lineComponents = split_on CHR ''-'' lineRef
          in case components_loop to_float recomb_atom units_wave mixture_line lineLabel lineRef
                    lineComponents (d, []) of
               Inl e \<Rightarrow> Inl e
             | Inr (d', latexLabel) \<Rightarrow>
                 lines_loop to_float recomb_atom comp_dict user_format units_wave rest
                   (if mixture_line
                    then d'\<lparr>latexLabel_dict := dict_set (latexLabel_dict d') lineRef
                                                  (''$'' @ latexLabel @ ''$'')\<rparr>
                    else d')))"

datatype decomposition =
    Scalars string real string
  | Arrays "string list" "real list" "string list"

definition label_decomposition ::
  "(string \<Rightarrow> py_error + real) \<Rightarrow> string list \<Rightarrow> string list \<Rightarrow> (string \<rightharpoonup> string) \<Rightarrow> bool
   \<Rightarrow> (string \<rightharpoonup> string \<times> real \<times> string) \<Rightarrow> string \<Rightarrow> py_error + decomposition" where
  "label_decomposition to_float lines recomb_atom comp_dict scalar_output user_format units_wave =
     (if \<not> distinct lines then Inl AssertionError
      else
        (case lines_loop to_float recomb_atom comp_dict user_format units_wave lines
                \<lparr>ion_dict = [], wave_dict = [], latexLabel_dict = []\<rparr> of
           Inl e \<Rightarrow> Inl e
         | Inr d \<Rightarrow>
            (let label_array = map fst (ion_dict d);
                 ion_array = map snd (ion_dict d);
                 wavelength_array = map snd (wave_dict d);
                 latexLabel_array = map snd (latexLabel_dict d)
             in if length label_array \<noteq> length wavelength_array then Inl AssertionError
                else if length label_array \<noteq> length latexLabel_array then Inl AssertionError
                else if length ion_array = 1 \<and> scalar_output
                then Inr (Scalars (ion_array ! 0) (wavelength_array ! 0) (latexLabel_array ! 0))
                else Inr (Arrays ion_array wavelength_array latexLabel_array))))"

definition int_to_roman_of :: "string \<Rightarrow> py_error + string" where
  \<comment> \<open>the Roman numeral of the ionization stage of an ion, \<open>int_to_roman(int(ion[-1]))\<close>\<close>
  "int_to_roman_of ion = (case py_int_last ion of Inl e \<Rightarrow> Inl e | Inr n \<Rightarrow> int_to_roman n)"

definition recomb_atom_default :: "string list" where
  "recomb_atom_default = [''H1'', ''He1'', ''He2'']"

section \<open>\<open>tools.py\<close>: matching detected peaks with the lines of a mask\<close>

text \<open>
  \<open>LineFinder.label_peaks\<close> reads the spectrum (\<open>self.wave_rest\<close>, \<open>self.flux\<close>,
  \<open>self.units_wave\<close>), the table of detected peaks and the mask log.  A row of the mask
  log has its label (the index), the columns \<open>w3\<close> and \<open>w4\<close> the function may rewrite
  (\<open>row_w3\<close>, \<open>row_w4\<close>),
  and its other columns, which the function copies: \<open>cols = Some c\<close> holds them, and
  \<open>None\<close> stands for the row of \<open>nan\<close> the function creates for a peak without a line.  The working
  table \<open>matched_DF\<close> has the columns \<open>wavelength\<close> and \<open>observation\<close> in addition
  (\<open>m_wavelength\<close>, \<open>m_observation\<close>).
  \<open>to_float\<close> is Python's \<open>float\<close> and \<open>unknown_label w\<close> the text
  \<open>'xy_{:.0f}A'.format(np.round(w))\<close>.
\<close>

record peak_row =
  peak_line_type :: string
  line_center_index :: int

record 'c band_row =
  row_label :: string
  row_w3 :: real
  row_w4 :: real
  cols :: "'c option"

record 'c matched_row =
  m_label :: string
  m_w3 :: real
  m_w4 :: real
  m_cols :: "'c option"
  m_wavelength :: real
  m_observation :: string

definition mean_diff :: "real list \<Rightarrow> real option" where
  \<comment> \<open>\<open>np.diff(xs).mean()\<close>; the mean of no difference is \<open>nan\<close>, here \<open>None\<close>\<close>
  "mean_diff xs =
     (let diffs = map (\<lambda>(a, b). b - a) (zip xs (tl xs))
      in if diffs = [] then None else Some (sum_list diffs / real (length diffs)))"

definition isclose :: "real \<Rightarrow> real \<Rightarrow> real option \<Rightarrow> bool" where
  \<comment> \<open>\<open>np.isclose(a, b, atol=atol)\<close> with numpy's default \<open>rtol=1e-05\<close>:
      \<open>absolute(a - b) <= atol + rtol * absolute(b)\<close>; a comparison with \<open>nan\<close> is false\<close>
  "isclose a b atol =
     (case atol of
        None \<Rightarrow> False
      | Some t \<Rightarrow> \<bar>a - b\<bar> \<le> t + (1 / 100000) * \<bar>b\<bar>)"

fun np_take :: "'a list \<Rightarrow> int list \<Rightarrow> py_error + 'a list" where
  \<comment> \<open>\<open>xs[idcs]\<close> for an array of integer indices\<close>
  "np_take xs [] = Inr []"
| "np_take xs (i # idcs) =
     (case np_get xs i of
        Inl e \<Rightarrow> Inl e
      | Inr x \<Rightarrow> (case np_take xs idcs of Inl e \<Rightarrow> Inl e | Inr ys \<Rightarrow> Inr (x # ys)))"

definition mark_detected :: "string list \<Rightarrow> 'c matched_row list \<Rightarrow> 'c matched_row list" where
  \<comment> \<open>\<open>matched_DF.loc[row_index, 'observation'] = 'detected'\<close>\<close>
  "mark_detected row_index rows =
     map (\<lambda>r. if m_label r \<in> set row_index then r\<lparr>m_observation := ''detected''\<rparr> else r) rows"

definition set_band :: "string list \<Rightarrow> real \<Rightarrow> real \<Rightarrow> 'c matched_row list \<Rightarrow> 'c matched_row list" where
  \<comment> \<open>\<open>matched_DF.loc[row_index, 'w3'] = a\<close> and \<open>matched_DF.loc[row_index, 'w4'] = b\<close>\<close>
  "set_band row_index a b rows =
     map (\<lambda>r. if m_label r \<in> set row_index then r\<lparr>m_w3 := a, m_w4 := b\<rparr> else r) rows"

definition refine_width ::
  "real list \<Rightarrow> real list \<Rightarrow> string \<Rightarrow> string \<Rightarrow> int \<Rightarrow> string list \<Rightarrow> 'c matched_row list
   \<Rightarrow> (py_error + 'c matched_row list) option" where
  \<comment> \<open>the part of the loop body from \<open>theoLineLabel = row_index[0]\<close> on\<close>
  "refine_width wave_rest flux line_type width_mode idx_peak row_index rows =
     (case row_index of
        [] \<Rightarrow> Some (Inl IndexError)
      | theoLineLabel # _ \<Rightarrow>
         (let blended_check = contains theoLineLabel ''_b'';
              minSeparation = (if blended_check then 4 else 2)
          in if width_mode = ''auto'' \<and> \<not> blended_check then
               (let emission_check = (line_type = ''emission'')
                in case compute_line_width idx_peak flux (- 1) minSeparation emission_check of
                     None \<Rightarrow> None
                   | Some (Inl e) \<Rightarrow> Some (Inl e)
                   | Some (Inr idx_min) \<Rightarrow>
                      (case compute_line_width idx_peak flux 1 minSeparation emission_check of
                         None \<Rightarrow> None
                       | Some (Inl e) \<Rightarrow> Some (Inl e)
                       | Some (Inr idx_max) \<Rightarrow>
                          (case np_get wave_rest idx_min of
                             Inl e \<Rightarrow> Some (Inl e)
                           | Inr a \<Rightarrow>
                              (case np_get wave_rest idx_max of
                                 Inl e \<Rightarrow> Some (Inl e)
                               | Inr b \<Rightarrow> Some (Inr (set_band row_index a b rows))))))
             else Some (Inr rows)))"

fun peaks_loop ::
  "(real \<Rightarrow> string) \<Rightarrow> real list \<Rightarrow> real list \<Rightarrow> string \<Rightarrow> string \<Rightarrow> bool \<Rightarrow> real list
   \<Rightarrow> real option \<Rightarrow> (int \<times> real) list \<Rightarrow> 'c matched_row list
   \<Rightarrow> (py_error + 'c matched_row list) option" where
  "peaks_loop unknown_label wave_rest flux line_type width_mode detect_check waveTheory tolerance
       [] rows = Some (Inr rows)"
| "peaks_loop unknown_label wave_rest flux line_type width_mode detect_check waveTheory tolerance
       ((idx_peak, wave_peak) # peaks) rows =
     (let idx_array = [j \<leftarrow> [0 ..< length waveTheory]. isclose (waveTheory ! j) wave_peak tolerance]
      in if length idx_array = 0 then
           (let unknownLineLabel = unknown_label wave_peak
            in peaks_loop unknown_label wave_rest flux line_type width_mode detect_check waveTheory
                 tolerance peaks
                 (if unknownLineLabel \<notin> set (map m_label rows) \<and> detect_check
                  then rows @ [\<lparr>m_label = unknownLineLabel, m_w3 = wave_peak - 5,
                                 m_w4 = wave_peak + 5, m_cols = None, m_wavelength = wave_peak,
                                 m_observation = ''not_identified''\<rparr>]
                  else rows))
         else
           (let row_index = [m_label r. r \<leftarrow> rows, m_wavelength r = waveTheory ! (idx_array ! 0)]
            in case refine_width wave_rest flux line_type width_mode idx_peak row_index
                      (mark_detected row_index rows) of
                 None \<Rightarrow> None
               | Some (Inl e) \<Rightarrow> Some (Inl e)
               | Some (Inr rows') \<Rightarrow>
                   peaks_loop unknown_label wave_rest flux line_type width_mode detect_check
                     waveTheory tolerance peaks rows'))"

definition label_peaks ::
  "(string \<Rightarrow> py_error + real) \<Rightarrow> (real \<Rightarrow> string) \<Rightarrow> real list \<Rightarrow> real list \<Rightarrow> string
   \<Rightarrow> peak_row list \<Rightarrow> 'c band_row list \<Rightarrow> string \<Rightarrow> real \<Rightarrow> string \<Rightarrow> bool
   \<Rightarrow> (py_error + 'c band_row list) option" where
  "label_peaks to_float unknown_label wave_rest flux units_wave peak_table mask_df line_type
       width_tol width_mode detect_check =
     (if length peak_table = 0 then Some (Inr [])
      else
        (let idcsLinePeak = [line_center_index p. p \<leftarrow> peak_table, peak_line_type p = line_type]
         in case np_take wave_rest idcsLinePeak of
              Inl e \<Rightarrow> Some (Inl e)
            | Inr wave_peaks \<Rightarrow>
               (case label_decomposition to_float (map row_label mask_df) recomb_atom_default
                       Map.empty False Map.empty units_wave of
                  Inl e \<Rightarrow> Some (Inl e)
                | Inr (Scalars _ _ _) \<Rightarrow> Some (Inl ValueError)
                | Inr (Arrays ion_array waveTheory latexLabel_array) \<Rightarrow>
                   (if length waveTheory \<noteq> length mask_df then Some (Inl ValueError)
                    else
                      (let tolerance = map_option (\<lambda>m. m * width_tol) (mean_diff wave_rest);
                           matched_DF =
                             map (\<lambda>(r, w). \<lparr>m_label = row_label r, m_w3 = row_w3 r, m_w4 = row_w4 r,
                                              m_cols = cols r, m_wavelength = w,
                                              m_observation = ''not detected''\<rparr>)
                                 (zip mask_df waveTheory)
                       in case peaks_loop unknown_label wave_rest flux line_type width_mode
                                 detect_check waveTheory tolerance (zip idcsLinePeak wave_peaks)
                                 matched_DF of
                            None \<Rightarrow> None
                          | Some (Inl e) \<Rightarrow> Some (Inl e)
                          | Some (Inr rows) \<Rightarrow>
                             Some (Inr (map (\<lambda>r. \<lparr>row_label = m_label r, row_w3 = m_w3 r,
                                                    row_w4 = m_w4 r, cols = m_cols r\<rparr>)
                                         (sort_key m_wavelength
                                            [r \<leftarrow> rows. m_observation r \<noteq> ''not detected'']))))))))"

definition fine_wave_rest :: "real list" where
  \<comment> \<open>three samples 0.1 apart around 5007.55\<close>
  "fine_wave_rest = [5007.45, 5007.55, 5007.65]"

definition O3_mask :: "unit band_row list" where
  \<comment> \<open>a mask with the single line \<open>O3_5007A\<close>\<close>
  "O3_mask = [\<lparr>row_label = ''O3_5007A'', row_w3 = 4997, row_w4 = 5017, cols = Some ()\<rparr>]"

section \<open>Properties\<close>

subsection \<open>Slices\<close>

lemma py_slice_from_last2 [simp]: "py_slice_from (X @ [a, b]) (-2) = [a, b]"
  by (simp add: py_slice_from_def py_clamp_def)

lemma py_slice_to_last2 [simp]: "py_slice_to (X @ [a, b]) (-2) = X"
  by (simp add: py_slice_to_def py_clamp_def)

subsection \<open>The label cycle\<close>

lemma circle_b: "circle_band_label (X @ ''_b'') = X @ ''_m''"
  by (simp add: circle_band_label_def)

lemma circle_m: "circle_band_label (X @ ''_m'') = X"
  by (simp add: circle_band_label_def)

lemma circle_bare: "bare_label X \<Longrightarrow> circle_band_label X = X @ ''_b''"
  by (simp add: circle_band_label_def bare_label_def)

text \<open>
  Claim C9.  For a bare label \<open>X\<close> (one that ends neither in \<open>_b\<close> nor in \<open>_m\<close>),
  \<open>circle_band_label\<close> maps \<open>X\<close> to \<open>X_b\<close>, \<open>X_b\<close> to \<open>X_m\<close> and \<open>X_m\<close> back to
  \<open>X\<close>.  Three applications return each of the three labels of the cycle, and one or
  two applications never do.
\<close>

theorem circle_band_label_cycle:
  assumes "bare_label X"
  shows "circle_band_label X = X @ ''_b''
       \<and> circle_band_label (X @ ''_b'') = X @ ''_m''
       \<and> circle_band_label (X @ ''_m'') = X
       \<and> (\<forall>L \<in> {X, X @ ''_b'', X @ ''_m''}.
             (circle_band_label ^^ 3) L = L
           \<and> (circle_band_label ^^ 1) L \<noteq> L
           \<and> (circle_band_label ^^ 2) L \<noteq> L)"
  using assms
  by (simp add: circle_b circle_m circle_bare numeral_3_eq_3 numeral_2_eq_2)

theorem circle_band_label_cycle_witness:
  "bare_label ''O3_5007A''
   \<and> circle_band_label ''O3_5007A'' = ''O3_5007A_b''
   \<and> circle_band_label ''O3_5007A_b'' = ''O3_5007A_m''
   \<and> circle_band_label ''O3_5007A_m'' = ''O3_5007A''
   \<and> (circle_band_label ^^ 3) ''O3_5007A'' = ''O3_5007A''
   \<and> (circle_band_label ^^ 2) ''O3_5007A'' \<noteq> ''O3_5007A''"
proof -
  have b: "bare_label ''O3_5007A''"
    by (simp add: bare_label_def py_slice_from_def py_clamp_def)
  show ?thesis
    using b circle_band_label_cycle [OF b] by simp
qed

subsection \<open>The band editor\<close>

lemma select_band_sorted:
  assumes "w1 < w2" "w2 < w3" "w3 < w4" "w4 < w5" "w5 < w6" "w_low < w_high"
  shows "select_band [w1, w2, w3, w4, w5, w6] l w_low w_high =
     (if w2 < w_low \<and> w_high < w5 then ([w1, w2, w_low, w_high, w5, w6], [])
      else if w_low \<le> w2 \<and> w_high < w3 then ([w_low, w_high, w3, w4, w5, w6], [])
      else if w4 < w_low \<and> w5 \<le> w_high then ([w1, w2, w3, w4, w_low, w_high], [])
      else if w_low < w1 \<and> w6 < w_high then ([w1, w2, w3, w4, w5, w6], [MaskRemoved l])
      else ([w1, w2, w3, w4, w5, w6], [UnsuccessfulSelection l w_low w_high]))"
  using assms by (auto simp: select_band_def)

text \<open>
  Claim C5, as the code has it.  For a band \<open>w1 < w2 < w3 < w4 < w5 < w6\<close> and a drag
  \<open>w_low < w_high\<close> in the rest frame, the callback re-assigns the line core \<open>w3, w4\<close>
  exactly when the drag lies strictly between \<open>w2\<close> and \<open>w5\<close>; the blue continuum
  \<open>w1, w2\<close> exactly when the drag starts at or below \<open>w2\<close> and ends below \<open>w3\<close>; the
  red continuum \<open>w5, w6\<close> exactly when the drag starts above \<open>w4\<close> and ends at or
  above \<open>w5\<close>; it reports the removal when the drag starts below \<open>w1\<close> and ends above
  \<open>w6\<close>; it logs any other placement as unsuccessful and leaves the band as it was.
  The five conditions exclude one another.  A click (equal endpoints) changes nothing.
\<close>

theorem on_select_MI_bands:
  assumes "w1 < w2" "w2 < w3" "w3 < w4" "w4 < w5" "w5 < w6"
    and "mask st = [w1, w2, w3, w4, w5, w6]"
    and "rest_frame st \<noteq> Some False"
    and "w_low < w_high"
  shows "on_select_MI st w_low w_high =
     (if w2 < w_low \<and> w_high < w5 then
        Inr (st\<lparr>mask := [w1, w2, w_low, w_high, w5, w6],
                log_df := (log_df st)(line st \<mapsto> [w1, w2, w_low, w_high, w5, w6]),
                notices := notices st\<rparr>)
      else if w_low \<le> w2 \<and> w_high < w3 then
        Inr (st\<lparr>mask := [w_low, w_high, w3, w4, w5, w6],
                log_df := (log_df st)(line st \<mapsto> [w_low, w_high, w3, w4, w5, w6]),
                notices := notices st\<rparr>)
      else if w4 < w_low \<and> w5 \<le> w_high then
        Inr (st\<lparr>mask := [w1, w2, w3, w4, w_low, w_high],
                log_df := (log_df st)(line st \<mapsto> [w1, w2, w3, w4, w_low, w_high]),
                notices := notices st\<rparr>)
      else if w_low < w1 \<and> w6 < w_high then
        Inr (st\<lparr>mask := [w1, w2, w3, w4, w5, w6],
                log_df := (log_df st)(line st \<mapsto> [w1, w2, w3, w4, w5, w6]),
                notices := notices st @ [MaskRemoved (line st)]\<rparr>)
      else
        Inr (st\<lparr>mask := [w1, w2, w3, w4, w5, w6],
                log_df := (log_df st)(line st \<mapsto> [w1, w2, w3, w4, w5, w6]),
                notices := notices st @ [UnsuccessfulSelection (line st) w_low w_high]\<rparr>))
   \<and> \<not> ((w2 < w_low \<and> w_high < w5) \<and> (w_low \<le> w2 \<and> w_high < w3))
   \<and> \<not> ((w2 < w_low \<and> w_high < w5) \<and> (w4 < w_low \<and> w5 \<le> w_high))
   \<and> \<not> ((w2 < w_low \<and> w_high < w5) \<and> (w_low < w1 \<and> w6 < w_high))
   \<and> \<not> ((w_low \<le> w2 \<and> w_high < w3) \<and> (w4 < w_low \<and> w5 \<le> w_high))
   \<and> \<not> ((w_low \<le> w2 \<and> w_high < w3) \<and> (w_low < w1 \<and> w6 < w_high))
   \<and> \<not> ((w4 < w_low \<and> w5 \<le> w_high) \<and> (w_low < w1 \<and> w6 < w_high))
   \<and> on_select_MI st w_low w_low = Inr st"
  (is "?outcome \<and> ?excl")
proof
  have ne: "w_low \<noteq> w_high" using assms(8) by simp
  have fr: "to_rest_frame st w_low w_high = Inr (w_low, w_high)"
    using assms(7) by (simp add: to_rest_frame_def)
  note sb = select_band_sorted [OF assms(1-5) assms(8), of "line st"]
  show ?outcome
    using ne by (simp add: on_select_MI_def fr assms(6) sb loc_assign_bands_def)
  show ?excl
    using assms(1-5,8) by (auto simp: on_select_MI_def)
qed

theorem on_select_MI_bands_witness:
  "on_select_MI band_1_6 2.2 3.8 =
     Inr (band_1_6\<lparr>mask := [1, 2, 2.2, 3.8, 5, 6],
                     log_df := [''O3_5007A'' \<mapsto> [1, 2, 2.2, 3.8, 5, 6]]\<rparr>)
   \<and> on_select_MI band_1_6 0.5 1.5 =
     Inr (band_1_6\<lparr>mask := [0.5, 1.5, 3, 4, 5, 6],
                     log_df := [''O3_5007A'' \<mapsto> [0.5, 1.5, 3, 4, 5, 6]]\<rparr>)
   \<and> on_select_MI band_1_6 5.5 6.5 =
     Inr (band_1_6\<lparr>mask := [1, 2, 3, 4, 5.5, 6.5],
                     log_df := [''O3_5007A'' \<mapsto> [1, 2, 3, 4, 5.5, 6.5]]\<rparr>)
   \<and> on_select_MI band_1_6 0 7 =
     Inr (band_1_6\<lparr>log_df := [''O3_5007A'' \<mapsto> [1, 2, 3, 4, 5, 6]],
                     notices := [MaskRemoved ''O3_5007A'']\<rparr>)
   \<and> on_select_MI band_1_6 2.2 2.2 = Inr band_1_6"
proof -
  have m: "mask band_1_6 = [1, 2, 3, 4, 5, 6]" and f: "rest_frame band_1_6 \<noteq> Some False"
    by (simp_all add: band_1_6_def)
  note t = on_select_MI_bands [where st = band_1_6, OF _ _ _ _ _ m f]
  have "on_select_MI band_1_6 2.2 3.8 =
     Inr (band_1_6\<lparr>mask := [1, 2, 2.2, 3.8, 5, 6],
                     log_df := [''O3_5007A'' \<mapsto> [1, 2, 2.2, 3.8, 5, 6]]\<rparr>)"
    using t [of "2.2" "3.8"] by (simp add: band_1_6_def)
  moreover have "on_select_MI band_1_6 0.5 1.5 =
     Inr (band_1_6\<lparr>mask := [0.5, 1.5, 3, 4, 5, 6],
                     log_df := [''O3_5007A'' \<mapsto> [0.5, 1.5, 3, 4, 5, 6]]\<rparr>)"
    using t [of "0.5" "1.5"] by (simp add: band_1_6_def)
  moreover have "on_select_MI band_1_6 5.5 6.5 =
     Inr (band_1_6\<lparr>mask := [1, 2, 3, 4, 5.5, 6.5],
                     log_df := [''O3_5007A'' \<mapsto> [1, 2, 3, 4, 5.5, 6.5]]\<rparr>)"
    using t [of "5.5" "6.5"] by (simp add: band_1_6_def)
  moreover have "on_select_MI band_1_6 0 7 =
     Inr (band_1_6\<lparr>log_df := [''O3_5007A'' \<mapsto> [1, 2, 3, 4, 5, 6]],
                     notices := [MaskRemoved ''O3_5007A'']\<rparr>)"
    using t [of 0 7] by (simp add: band_1_6_def)
  moreover have "on_select_MI band_1_6 2.2 2.2 = Inr band_1_6"
    using t [of "2.2" "3.8"] by simp
  ultimately show ?thesis by blast
qed

text \<open>
  The claim's reading of the two continuum branches fails on the same band: the drag
  \<open>(1.5, 2.5)\<close> does not lie entirely below \<open>w2 = 2\<close>, and it is assigned to the blue
  continuum; the drag \<open>(3.5, 5.5)\<close> lies entirely above \<open>w3 = 3\<close>, and it is not assigned
  to the red continuum but logged as unsuccessful.
\<close>

theorem on_select_MI_continuum_counterexample:
  "on_select_MI band_1_6 1.5 2.5 =
     Inr (band_1_6\<lparr>mask := [1.5, 2.5, 3, 4, 5, 6],
                     log_df := [''O3_5007A'' \<mapsto> [1.5, 2.5, 3, 4, 5, 6]]\<rparr>)
   \<and> \<not> (2.5 < mask band_1_6 ! 1)
   \<and> on_select_MI band_1_6 3.5 5.5 =
     Inr (band_1_6\<lparr>log_df := [''O3_5007A'' \<mapsto> [1, 2, 3, 4, 5, 6]],
                     notices := [UnsuccessfulSelection ''O3_5007A'' 3.5 5.5]\<rparr>)
   \<and> mask band_1_6 ! 2 < 3.5"
  by (simp add: on_select_MI_def to_rest_frame_def select_band_def loc_assign_bands_def
      band_1_6_def)

subsection \<open>Walks on the flux array\<close>








subsection \<open>The spaxel toggle\<close>

lemma np_index_in_range: "0 \<le> i \<Longrightarrow> nat i < n \<Longrightarrow> np_index n i = Inr (nat i)"
  by (simp add: np_index_def)

lemma spaxel_loop_in_range:
  assumes "0 \<le> j" "0 \<le> i"
    and "\<forall>(k, m, h) \<in> set items. in_matrix m (nat j) (nat i)"
  shows "spaxel_loop ext (j, i) items =
           (map (\<lambda>(k, m, h). (k, toggled ext (nat j) (nat i) k m, h)) items, None)"
  using assms(3)
proof (induction items)
  case Nil
  show ?case by simp
next
  case (Cons x items)
  obtain k m h where x: "x = (k, m, h)" by (cases x)
  have inm: "nat j < length m" "nat i < length (m ! nat j)"
    using Cons.prems x by (simp_all add: in_matrix_def)
  have ih: "spaxel_loop ext (j, i) items =
           (map (\<lambda>(k, m, h). (k, toggled ext (nat j) (nat i) k m, h)) items, None)"
    using Cons by simp
  show ?case
    using inm assms(1,2)
    by (simp add: x ih np_get2_def np_set2_def np_index_in_range toggled_def)
qed

lemma map_of_toggled:
  "map_of (map (\<lambda>(k, m, h). (k, f k m, h)) items) k
     = map_option (\<lambda>(m, h). (f k m, h)) (map_of items k)"
  by (induction items) auto

lemma member_toggled:
  assumes "in_matrix m r c"
  shows "(in_matrix (toggled ext r c k m) r' c' \<and> toggled ext r c k m ! r' ! c')
       = (if r' = r \<and> c' = c then k = ext \<and> \<not> m ! r ! c
          else in_matrix m r' c' \<and> m ! r' ! c')"
  using assms
  by (auto simp: in_matrix_def toggled_def nth_list_update)

lemma member_of_toggled:
  assumes "\<forall>(k, m, h) \<in> set items. in_matrix m r c"
  shows "member_of (map (\<lambda>(k, m, h). (k, toggled ext r c k m, h)) items) k r' c'
       = (if r' = r \<and> c' = c
          then k = ext \<and> k \<in> fst ` set items \<and> \<not> member_of items k r c
          else member_of items k r' c')"
proof (cases "map_of items k")
  case None
  then have "k \<notin> fst ` set items" by (simp add: map_of_eq_None_iff)
  with None show ?thesis
    by (simp add: member_of_def map_of_toggled)
next
  case (Some v)
  obtain m h where v: "v = (m, h)" by (cases v)
  have "(k, m, h) \<in> set items" using Some v by (simp add: map_of_SomeD)
  then have inm: "in_matrix m r c" and dom: "k \<in> fst ` set items"
    using assms by force+
  show ?thesis
    using inm dom member_toggled [OF inm, of ext k r' c']
    by (simp add: member_of_def map_of_toggled Some v)
qed

text \<open>
  Claim C8.  Let the clicked spaxel lie inside the matrix of every loaded region.  Then
  \<open>spaxel_selection\<close> returns without an exception and keeps the names and headers; the
  clicked spaxel belongs afterwards to the selected region exactly when that region is
  loaded and the spaxel did not belong to it before, and to no other region; the
  memberships of every other spaxel are as before; and if no spaxel belonged to two
  regions before, none does afterwards.
\<close>

theorem spaxel_selection_exclusive:
  assumes "key_coords st = (j, i)" "0 \<le> j" "0 \<le> i"
    and "\<forall>(k, m, h) \<in> set (masks_dict st). in_matrix m (nat j) (nat i)"
    and "spaxel_selection st = (st', err)"
  shows "err = None
       \<and> map (\<lambda>(k, m, h). (k, h)) (masks_dict st') = map (\<lambda>(k, m, h). (k, h)) (masks_dict st)
       \<and> mask_ext st' = mask_ext st \<and> key_coords st' = key_coords st
       \<and> (\<forall>k. member_of (masks_dict st') k (nat j) (nat i)
               = (k = mask_ext st \<and> k \<in> fst ` set (masks_dict st)
                  \<and> \<not> member_of (masks_dict st) k (nat j) (nat i)))
       \<and> (\<forall>k r c. (r, c) \<noteq> (nat j, nat i)
               \<longrightarrow> member_of (masks_dict st') k r c = member_of (masks_dict st) k r c)
       \<and> (exclusive (masks_dict st) \<longrightarrow> exclusive (masks_dict st'))"
proof -
  let ?new = "map (\<lambda>(k, m, h). (k, toggled (mask_ext st) (nat j) (nat i) k m, h)) (masks_dict st)"
  have loop: "spaxel_loop (mask_ext st) (j, i) (masks_dict st) = (?new, None)"
    using assms(2,3,4) by (rule spaxel_loop_in_range)
  have st': "st' = st\<lparr>masks_dict := ?new\<rparr>" and err: "err = None"
    using assms(5) by (simp_all add: spaxel_selection_def assms(1) loop)
  note mem = member_of_toggled [OF assms(4), of "mask_ext st"]
  have names: "map (\<lambda>(k, m, h). (k, h)) ?new = map (\<lambda>(k, m, h). (k, h)) (masks_dict st)"
    by (induction "masks_dict st") (auto simp: case_prod_beta)
  have excl: "exclusive ?new" if "exclusive (masks_dict st)"
    unfolding exclusive_def
  proof (intro allI impI)
    fix r c k1 k2
    assume a: "member_of ?new k1 r c" "member_of ?new k2 r c"
    show "k1 = k2"
    proof (cases "r = nat j \<and> c = nat i")
      case True
      then show ?thesis using a by (simp add: mem)
    next
      case False
      then have "member_of (masks_dict st) k1 r c" "member_of (masks_dict st) k2 r c"
        using a by (auto simp: mem)
      then show ?thesis using that by (auto simp: exclusive_def)
    qed
  qed
  show ?thesis
    using err names excl by (auto simp: st' mem)
qed

theorem spaxel_selection_exclusive_witness:
  "spaxel_selection two_masks =
     (two_masks\<lparr>masks_dict := [(''MASK_0'', [[False, False], [False, False]], ()),
                                 (''MASK_1'', [[False, True], [True, False]], ())]\<rparr>, None)
   \<and> exclusive (masks_dict two_masks)
   \<and> exclusive (masks_dict (fst (spaxel_selection two_masks)))"
proof -
  let ?st' = "two_masks\<lparr>masks_dict := [(''MASK_0'', [[False, False], [False, False]], ()),
                                       (''MASK_1'', [[False, True], [True, False]], ())]\<rparr>"
  have kc: "key_coords two_masks = (0, 1)" by (simp add: two_masks_def)
  have inm: "\<forall>(k, m, h) \<in> set (masks_dict two_masks). in_matrix m (nat 0) (nat 1)"
    by (simp add: two_masks_def in_matrix_def)
  have run: "spaxel_selection two_masks = (?st', None)"
    by (simp add: spaxel_selection_def two_masks_def np_get2_def np_set2_def np_index_def)
  have ex: "exclusive (masks_dict two_masks)"
    by (auto simp: exclusive_def member_of_def two_masks_def in_matrix_def nth_Cons'
        split: if_splits)
  from spaxel_selection_exclusive [OF kc _ _ inm run]
  have "exclusive (masks_dict two_masks) \<longrightarrow> exclusive (masks_dict ?st')" by simp
  with ex have "exclusive (masks_dict ?st')" by (rule rev_mp)
  with run ex show ?thesis by simp
qed

subsection \<open>The configuration overlay\<close>

lemma map_add_absorb: "(g ++ g) ++ l = g ++ l"
  by (rule ext) (simp add: map_add_def split: option.splits)

lemma overlay_objects_section:
  "overlay_objects g objs cfg L =
     (if L \<in> local_label ` set objs
      then Some (g ++ (case cfg L of Some d \<Rightarrow> d | None \<Rightarrow> Map.empty))
      else cfg L)"
proof (induction objs arbitrary: cfg)
  case Nil
  show ?case by simp
next
  case (Cons obj objs)
  show ?case
    by (simp add: Cons.IH map_add_absorb)
qed

text \<open>
  Claim C4.  When the file is read and formatted to \<open>cfg_lime\<close>, the default section
  \<open>def_cfg_sec\<close> is \<open>global_cfg\<close> and \<open>obj_list\<close> is a sequence of object identifiers
  (or a dictionary whose last item locates an option that lists them), then
  \<open>load_cfg\<close> returns a configuration in which the section \<open>{obj}_line_fitting\<close> of every
  object of the list is the default section updated with the object's own section of the
  file: the object's entries win, the default's other entries are kept, and no other
  key appears.  The sections no object names are as in the file.
\<close>

theorem load_cfg_overlay:
  assumes "cfg_file = Some (Inr raw)"
    and "format_sections fmt raw Map.empty = Inr cfg_lime"
    and "cfg_lime def_cfg_sec = Some global_cfg"
    and "obj_list = Obj_Sequence objList
       \<or> (\<exists>items v. obj_list = Obj_Dict items
              \<and> locate_objects cfg_lime items None = Inr (Some v)
              \<and> objects_of v = Inr objList)"
  shows "\<exists>out. load_cfg fmt objects_of cfg_file obj_list def_cfg_sec = Inr out
     \<and> (\<forall>obj \<in> set objList.
           out (local_label obj) = Some (global_cfg ++ local_of cfg_lime obj)
         \<and> (\<forall>k v. local_of cfg_lime obj k = Some v
                \<longrightarrow> (global_cfg ++ local_of cfg_lime obj) k = Some v)
         \<and> (\<forall>k. local_of cfg_lime obj k = None
                \<longrightarrow> (global_cfg ++ local_of cfg_lime obj) k = global_cfg k))
     \<and> (\<forall>L. L \<notin> local_label ` set objList \<longrightarrow> out L = cfg_lime L)"
proof -
  have "load_cfg fmt objects_of cfg_file obj_list def_cfg_sec
          = Inr (overlay_objects global_cfg objList cfg_lime)"
    using assms(4) by (auto simp: load_cfg_def assms(1-3))
  then show ?thesis
    by (auto simp: overlay_objects_section local_of_def map_add_def split: option.splits)
qed

theorem load_cfg_overlay_witness:
  "load_cfg (\<lambda>v k s. Inr v) (\<lambda>v. Inl TypeError) (Some (Inr example_cfg))
       (Obj_Sequence [''obj'']) ''default_line_fitting''
     = Inr [''default_line_fitting'' \<mapsto> [''a'' \<mapsto> ''1'', ''b'' \<mapsto> ''2''],
            ''obj_line_fitting'' \<mapsto> [''a'' \<mapsto> ''1'', ''b'' \<mapsto> ''3'', ''c'' \<mapsto> ''4'']]"
proof -
  define g :: "string cfg_section" where "g = [''a'' \<mapsto> ''1'', ''b'' \<mapsto> ''2'']"
  define l :: "string cfg_section" where "l = [''b'' \<mapsto> ''3'', ''c'' \<mapsto> ''4'']"
  define cfg :: "string cfg" where
    "cfg = [''default_line_fitting'' \<mapsto> g, ''obj_line_fitting'' \<mapsto> l]"
  have f: "format_sections (\<lambda>v k s. Inr v) example_cfg Map.empty = Inr cfg"
    by (simp add: example_cfg_def cfg_def g_def l_def)
  have d: "cfg ''default_line_fitting'' = Some g"
    by (simp add: cfg_def)
  have lo: "local_of cfg ''obj'' = l"
    by (simp add: local_of_def local_label_def cfg_def)
  have sq: "Obj_Sequence [''obj''] = Obj_Sequence [''obj'']
       \<or> (\<exists>items v. Obj_Sequence [''obj''] = Obj_Dict items
              \<and> locate_objects cfg items None = Inr (Some v)
              \<and> (\<lambda>v. Inl TypeError) v = Inr [''obj''])"
    by simp
  from load_cfg_overlay [OF refl f d sq]
  obtain out where o1:
    "load_cfg (\<lambda>v k s. Inr v) (\<lambda>v. Inl TypeError) (Some (Inr example_cfg))
       (Obj_Sequence [''obj'']) ''default_line_fitting'' = Inr out"
    and o2: "\<forall>obj \<in> set [''obj'']. out (local_label obj) = Some (g ++ local_of cfg obj)
         \<and> (\<forall>k v. local_of cfg obj k = Some v \<longrightarrow> (g ++ local_of cfg obj) k = Some v)
         \<and> (\<forall>k. local_of cfg obj k = None \<longrightarrow> (g ++ local_of cfg obj) k = g k)"
    and o3: "\<forall>L. L \<notin> local_label ` set [''obj''] \<longrightarrow> out L = cfg L"
    by blast
  have "''obj'' \<in> set [''obj'']" by simp
  from o2 [THEN bspec, OF this, THEN conjunct1]
  have sec: "out ''obj_line_fitting'' = Some (g ++ l)"
    by (simp add: local_label_def lo)
  have rest: "out L = cfg L" if "L \<noteq> ''obj_line_fitting''" for L
    using o3 [THEN spec, of L] that by (simp add: local_label_def)
  have "out = cfg(''obj_line_fitting'' \<mapsto> g ++ l)"
  proof (rule ext)
    fix L
    show "out L = (cfg(''obj_line_fitting'' \<mapsto> g ++ l)) L"
      using sec rest [of L] by (cases "L = ''obj_line_fitting''") simp_all
  qed
  also have "\<dots> = [''default_line_fitting'' \<mapsto> [''a'' \<mapsto> ''1'', ''b'' \<mapsto> ''2''],
            ''obj_line_fitting'' \<mapsto> [''a'' \<mapsto> ''1'', ''b'' \<mapsto> ''3'', ''c'' \<mapsto> ''4'']]"
    by (simp add: cfg_def g_def l_def)
  finally show ?thesis using o1 by simp
qed

subsection \<open>Suffixes\<close>

lemma path_suffix_examples:
  "path_suffix ''lines_log.xls'' = ''.xls''"
  "path_suffix ''lines_log.xlsx'' = ''.xlsx''"
  "path_suffix ''out/lines_log.csv'' = ''.csv''"
  "path_suffix ''lines_log.txt'' = ''.txt''"
  by (simp_all add: path_suffix_def path_name_def py_rfind_def occurrences_def
      py_slice_from_def py_clamp_def)

subsection \<open>Reading a lines log\<close>

lemma log_reader_xls:
  "log_reader p ''.xls'' ext = (Read_csv p 0 0, [Warning_unrecognised ''.xls''])"
  by (simp add: log_reader_def py_or_def)

lemma log_reader_xlsx: "log_reader p ''.xlsx'' ext = (Read_excel p ext 0 0, [])"
  by (simp add: log_reader_def py_or_def)

text \<open>
  Claim C2 asks that a file with the suffix \<open>.xls\<close> be read as a spreadsheet, like
  one with the suffix \<open>.xlsx\<close>.  The code does so for \<open>.xlsx\<close> only: the list
  \<open>['.xlsx' or '.xls']\<close> has the single element \<open>'.xlsx'\<close>, so \<open>lines_log.xls\<close> falls
  through to the last branch, which warns that the type is not recognised and reads the
  file as whitespace-separated text.
\<close>

theorem load_log_xls_read_as_text:
  "log_reader ''lines_log.xls'' (path_suffix ''lines_log.xls'') ext
     = (Read_csv ''lines_log.xls'' 0 0, [Warning_unrecognised ''.xls''])
   \<and> log_reader ''lines_log.xlsx'' (path_suffix ''lines_log.xlsx'') ext
     = (Read_excel ''lines_log.xlsx'' ext 0 0, [])
   \<and> load_log lib ''lines_log.xls'' ext sample_levels
     = (case is_file lib ''lines_log.xls'' of
          Inl e \<Rightarrow> ([], Inl e)
        | Inr found \<Rightarrow>
            ((if \<not> found then [Critical_no_log ''lines_log.xls''] else [])
               @ [Warning_unrecognised ''.xls''],
             (case run_read lib (Read_csv ''lines_log.xls'' 0 0) of
                Inl e \<Rightarrow> (if e = ValueError then Inl SystemExit else Inl e)
              | Inr the_log \<Rightarrow>
                  (if length [c \<leftarrow> columns_of lib the_log. c \<in> set sample_levels]
                        = length sample_levels
                   then set_index lib the_log sample_levels
                   else Inr the_log))))"
  by (simp add: load_log_def Let_def path_suffix_examples log_reader_xls log_reader_xlsx
      split: sum.splits)

subsection \<open>Writing a lines log\<close>

text \<open>
  Claim C3, as the code has it.  Let the parent directory of the destination exist and
  its suffix be none of \<open>.txt\<close>, \<open>.pdf\<close>, \<open>.fits\<close>, \<open>.asdf\<close>, \<open>.xlsx\<close>, \<open>.xls\<close>.  For a table
  with at least one row \<open>save_log\<close> raises: \<open>LiMe_Error\<close> once resetting a multi-index and
  selecting the requested parameters have succeeded (so always for a flat index and
  \<open>parameters='all'\<close>), and the exception of that step otherwise.  For a table without
  rows it raises nothing: it logs that there are no measurements and saves no file.
\<close>

theorem save_log_unrecognised_suffix:
  assumes "parent_exists lib file_address"
    and "path_suffix file_address \<notin> set [''.txt'', ''.pdf'', ''.fits'', ''.asdf'', ''.xlsx'', ''.xls'']"
  shows "(0 < n_rows lib log_dataframe \<and> \<not> is_multi_index lib log_dataframe \<and> parameters = None
            \<longrightarrow> save_log lib dtype_fields log_dataframe file_address ext parameters
                  = ([], Inl LiMe_Error))
       \<and> (0 < n_rows lib log_dataframe
            \<and> (\<exists>the_log lines_log.
                  (if is_multi_index lib log_dataframe then reset_index lib log_dataframe
                   else Inr log_dataframe) = Inr the_log
                \<and> select_parameters lib dtype_fields the_log parameters = Inr lines_log)
            \<longrightarrow> save_log lib dtype_fields log_dataframe file_address ext parameters
                  = ([], Inl LiMe_Error))
       \<and> (0 < n_rows lib log_dataframe
            \<longrightarrow> (\<exists>e. save_log lib dtype_fields log_dataframe file_address ext parameters
                       = ([], Inl e)))
       \<and> (n_rows lib log_dataframe = 0
            \<longrightarrow> save_log lib dtype_fields log_dataframe file_address ext parameters
                  = ([Info_no_measurements], Inr Not_saved))"
  using assms
  by (auto simp: save_log_def Let_def select_parameters_def split: sum.splits option.splits)

theorem save_log_unrecognised_suffix_witness:
  "save_log one_log_library [] 3 ''out/lines_log.csv'' ''LINESLOG'' None = ([], Inl LiMe_Error)"
proof -
  have p: "parent_exists one_log_library ''out/lines_log.csv''"
    by (simp add: one_log_library_def)
  have s: "path_suffix ''out/lines_log.csv''
             \<notin> set [''.txt'', ''.pdf'', ''.fits'', ''.asdf'', ''.xlsx'', ''.xls'']"
    by (simp add: path_suffix_examples)
  have h: "0 < n_rows one_log_library 3 \<and> \<not> is_multi_index one_log_library 3
             \<and> (None :: string list option) = None"
    by (simp add: one_log_library_def)
  from save_log_unrecognised_suffix [OF p s, of 3 None "[]" "''LINESLOG''", THEN conjunct1] h
  show ?thesis by (rule mp)
qed

text \<open>
  The claim as stated fails on a table without rows: nothing is raised.
\<close>

theorem save_log_empty_counterexample:
  "parent_exists one_log_library ''out/lines_log.csv''
   \<and> path_suffix ''out/lines_log.csv''
        \<notin> set [''.txt'', ''.pdf'', ''.fits'', ''.asdf'', ''.xlsx'', ''.xls'']
   \<and> save_log one_log_library [] 0 ''out/lines_log.csv'' ''LINESLOG'' None
        = ([Info_no_measurements], Inr Not_saved)"
  by (simp add: save_log_def Let_def one_log_library_def path_suffix_examples)

subsection \<open>Resolving a table or a file\<close>

text \<open>
  Claim C7, as the code has it.  \<open>check_file_dataframe\<close> returns its input when the input
  is an instance of \<open>variable_type\<close>.  Otherwise, for a string or a path that the file
  system finds to be an existing file it returns the table \<open>load_log\<close> returns and raises
  what \<open>load_log\<close> raises; for a string or a path that the file system finds not to be a
  file it returns \<open>None\<close>; for a string or a path that the file system refuses to look up
  it raises the \<open>OSError\<close> of \<open>Path(input).is_file()\<close>; for any other value it raises
  \<open>TypeError\<close>.  These are the only cases in which it raises.
\<close>

theorem check_file_dataframe_cases:
  "(isinstance input variable_type
      \<longrightarrow> check_file_dataframe lib input variable_type ext sample_levels = ([], Inr input))
   \<and> (\<not> isinstance input variable_type \<and> as_path input = Inr p \<and> is_file lib p = Inr True
      \<longrightarrow> check_file_dataframe lib input variable_type ext sample_levels
            = (fst (load_log lib p ext sample_levels),
               (case snd (load_log lib p ext sample_levels) of
                  Inl e \<Rightarrow> Inl e
                | Inr the_log \<Rightarrow> Inr (Frame the_log))))
   \<and> (\<not> isinstance input variable_type \<and> as_path input = Inr p \<and> is_file lib p = Inr False
      \<longrightarrow> check_file_dataframe lib input variable_type ext sample_levels = ([], Inr None_value))
   \<and> (\<not> isinstance input variable_type \<and> as_path input = Inr p \<and> is_file lib p = Inl err
      \<longrightarrow> check_file_dataframe lib input variable_type ext sample_levels = ([], Inl err))
   \<and> (\<not> isinstance input variable_type \<and> (\<forall>q. as_path input \<noteq> Inr q)
      \<longrightarrow> check_file_dataframe lib input variable_type ext sample_levels = ([], Inl TypeError))
   \<and> ((\<exists>e. snd (check_file_dataframe lib input variable_type ext sample_levels) = Inl e)
      \<longleftrightarrow> \<not> isinstance input variable_type
          \<and> ((\<forall>q. as_path input \<noteq> Inr q)
             \<or> (\<exists>q e. as_path input = Inr q \<and> is_file lib q = Inl e)
             \<or> (\<exists>q e. as_path input = Inr q \<and> is_file lib q = Inr True
                      \<and> snd (load_log lib q ext sample_levels) = Inl e)))"
proof -
  have tyerr: "e = TypeError" if "as_path input = Inl e" for e
    using that by (cases input) simp_all
  show ?thesis
  proof (cases "as_path input")
    case (Inl e)
    then show ?thesis
      by (auto simp: check_file_dataframe_def dest: tyerr)
  next
    case (Inr q)
    show ?thesis
    proof (cases "is_file lib q")
      case (Inl e)
      with Inr show ?thesis
        by (auto simp: check_file_dataframe_def)
    next
      case found: (Inr b)
      with Inr show ?thesis
        by (cases b; cases "load_log lib q ext sample_levels")
           (auto simp: check_file_dataframe_def split: sum.splits)
    qed
  qed
qed

theorem check_file_dataframe_cases_witness:
  "check_file_dataframe one_log_library (Str ''lines_log.txt'') T_DataFrame ''LINESLOG''
       [''id'', ''line''] = ([], Inr (Frame 3))
   \<and> check_file_dataframe one_log_library (Str ''missing.txt'') T_DataFrame ''LINESLOG''
       [''id'', ''line''] = ([], Inr None_value)
   \<and> check_file_dataframe one_log_library (Str (replicate 256 CHR ''x'')) T_DataFrame
       ''LINESLOG'' [''id'', ''line''] = ([], Inl OSError)
   \<and> check_file_dataframe one_log_library (Frame 5) T_DataFrame ''LINESLOG''
       [''id'', ''line''] = ([], Inr (Frame 5))"
proof -
  have ld: "load_log one_log_library ''lines_log.txt'' ''LINESLOG'' [''id'', ''line'']
              = ([], Inr 3)"
    by (simp add: load_log_def Let_def one_log_library_def path_suffix_examples log_reader_def)
  have a: "\<not> isinstance (Str ''lines_log.txt'' :: nat py_value) T_DataFrame
           \<and> as_path (Str ''lines_log.txt'' :: nat py_value) = Inr ''lines_log.txt''
           \<and> is_file one_log_library ''lines_log.txt'' = Inr True"
    by (simp add: isinstance_def one_log_library_def)
  have b: "\<not> isinstance (Str ''missing.txt'' :: nat py_value) T_DataFrame
           \<and> as_path (Str ''missing.txt'' :: nat py_value) = Inr ''missing.txt''
           \<and> is_file one_log_library ''missing.txt'' = Inr False"
    by (simp add: isinstance_def one_log_library_def)
  have c: "isinstance (Frame 5 :: nat py_value) T_DataFrame"
    by (simp add: isinstance_def)
  have d: "\<not> isinstance (Str (replicate 256 CHR ''x'') :: nat py_value) T_DataFrame
           \<and> as_path (Str (replicate 256 CHR ''x'') :: nat py_value) = Inr (replicate 256 CHR ''x'')
           \<and> is_file one_log_library (replicate 256 CHR ''x'') = Inl OSError"
    by (simp add: isinstance_def one_log_library_def)
  note t1 = check_file_dataframe_cases [of "Str ''lines_log.txt''" T_DataFrame one_log_library
      "''LINESLOG''" "[''id'', ''line'']" "''lines_log.txt''" OSError]
  note t2 = check_file_dataframe_cases [of "Str ''missing.txt''" T_DataFrame one_log_library
      "''LINESLOG''" "[''id'', ''line'']" "''missing.txt''" OSError]
  note t3 = check_file_dataframe_cases [of "Frame 5" T_DataFrame one_log_library
      "''LINESLOG''" "[''id'', ''line'']" "''x''" OSError]
  note t4 = check_file_dataframe_cases [of "Str (replicate 256 CHR ''x'')" T_DataFrame
      one_log_library "''LINESLOG''" "[''id'', ''line'']" "replicate 256 CHR ''x''" OSError]
  have "check_file_dataframe one_log_library (Str ''lines_log.txt'') T_DataFrame ''LINESLOG''
       [''id'', ''line''] = ([], Inr (Frame 3))"
    using mp [OF t1 [THEN conjunct2, THEN conjunct1] a] by (simp add: ld)
  moreover have "check_file_dataframe one_log_library (Str ''missing.txt'') T_DataFrame ''LINESLOG''
       [''id'', ''line''] = ([], Inr None_value)"
    using b t2 [THEN conjunct2, THEN conjunct2, THEN conjunct1] by (rule rev_mp)
  moreover have "check_file_dataframe one_log_library (Str (replicate 256 CHR ''x'')) T_DataFrame
       ''LINESLOG'' [''id'', ''line''] = ([], Inl OSError)"
    using d t4 [THEN conjunct2, THEN conjunct2, THEN conjunct2, THEN conjunct1] by (rule rev_mp)
  moreover have "check_file_dataframe one_log_library (Frame 5) T_DataFrame ''LINESLOG''
       [''id'', ''line''] = ([], Inr (Frame 5))"
    using c t3 [THEN conjunct1] by (rule rev_mp)
  ultimately show ?thesis by blast
qed

text \<open>
  The claim as stated fails on an input that is neither a table nor a path, such as
  \<open>None\<close>: \<open>Path(None)\<close> raises \<open>TypeError\<close>.
\<close>

theorem check_file_dataframe_raises_counterexample:
  "check_file_dataframe one_log_library None_value T_DataFrame ''LINESLOG'' [''id'', ''line'']
     = ([], Inl TypeError)"
  by (simp add: check_file_dataframe_def isinstance_def)

subsection \<open>Label decomposition\<close>

lemma int_to_roman_3: "int_to_roman 3 = Inr ''III''"
  by (simp add: int_to_roman_def VAL_LIST_def SYB_LIST_def eval_nat_numeral)

lemma decimal_float_5007: "decimal_float ''5007'' = Inr 5007"
  by (simp add: decimal_float_def unsigned_decimal_def digits_value_def digit_value_def
      is_digit_def)

lemma component_label_O3_5007A:
  "component_label recomb_atom_default ''A'' ''O3_5007A''
     = Inr (''O3'', ''5007'', ''[OIII]'' @ backslash # '',5007'' @ backslash # ''AA'')"
  by (simp add: component_label_def recomb_atom_default_def UNITS_LATEX_DICT_def
      contains_def occurrences_def endswith_def py_find_def py_rfind_def py_slice_def
      py_slice_to_def py_clamp_def py_int_last_def is_digit_def digit_value_def int_to_roman_3)

lemma component_label_brackets:
  assumes "component_label recomb_atom units_wave line_i = Inr (ion, wavelength, comp_line)"
  shows "\<exists>roman tail. int_to_roman_of ion = Inr roman
           \<and> comp_line = (if ion \<in> set recomb_atom
                          then py_slice_to ion (- 1) @ roman @ backslash # '','' @ tail
                          else ''['' @ py_slice_to ion (- 1) @ roman @ '']'' @ backslash # '','' @ tail)"
  using assms
  by (auto simp: component_label_def int_to_roman_of_def Let_def
      split: if_splits sum.splits option.splits)

text \<open>
  Claim C1 gives the Latex label of \<open>O3_5007A\<close> as \<open>$5007\AA\,[OIII]$\<close>, as the docstring
  of \<open>label_decomposition\<close> does.  The code puts the ion first: with \<open>scalar_output=True\<close>
  the call returns the ion \<open>O3\<close>, the wavelength \<open>5007.0\<close> and the label
  \<open>$[OIII]\,5007\AA$\<close>.  (The ion is bracketed, as the claim says of an ion outside
  \<open>recomb_atom\<close>.)
\<close>

theorem label_decomposition_O3_5007A:
  "label_decomposition decimal_float [''O3_5007A''] recomb_atom_default Map.empty True Map.empty ''A''
     = Inr (Scalars ''O3'' 5007 (''$[OIII]'' @ backslash # '',5007'' @ backslash # ''AA$''))
   \<and> ''$[OIII]'' @ backslash # '',5007'' @ backslash # ''AA$''
     \<noteq> ''$5007'' @ backslash # ''AA'' @ backslash # '',[OIII]$''"
  by (simp add: label_decomposition_def component_label_O3_5007A decimal_float_5007
      dict_set_def py_slice_from_def py_clamp_def Let_def backslash_def)

subsection \<open>Peak matching\<close>

lemma label_decomposition_O3_mask:
  "label_decomposition decimal_float (map row_label O3_mask) recomb_atom_default Map.empty False
       Map.empty ''A''
     = Inr (Arrays [''O3''] [5007] [''$[OIII]'' @ backslash # '',5007'' @ backslash # ''AA$''])"
  by (simp add: label_decomposition_def component_label_O3_5007A decimal_float_5007
      dict_set_def py_slice_from_def py_clamp_def Let_def backslash_def O3_mask_def)

lemma mean_diff_fine: "mean_diff fine_wave_rest = Some (1 / 10)"
  by (simp add: mean_diff_def fine_wave_rest_def)

lemma np_take_fine: "np_take fine_wave_rest [1] = Inr [5007.55]"
  by (simp add: np_get_def fine_wave_rest_def)

lemma isclose_within:
  assumes "0 \<le> t"
  shows "isclose 5007 (5007 + 0.9 * t) (Some t)"
  using assms by (simp add: isclose_def)

lemma isclose_beyond:
  assumes "0 \<le> t"
  shows "isclose 5007 (5007 + 1.1 * t) (Some t) \<longleftrightarrow> 0.1 * t \<le> (5007 + 1.1 * t) / 100000"
  using assms by (simp add: isclose_def) argo

text \<open>
  Claim C6 asks that a peak at \<open>5007.0 + 1.1 * tolerance\<close> not be matched with the line
  at \<open>5007.0\<close>.  The code compares with \<open>np.isclose(waveTheory, wave_peaks[i],
  atol=tolerance)\<close>, which adds numpy's default relative tolerance \<open>1e-05 * wave_peaks[i]\<close>,
  about \<open>0.05\<close> here, to \<open>tolerance\<close>.  On a spectrum sampled every \<open>0.1\<close> with \<open>width_tol = 5\<close>
  the tolerance is \<open>0.5\<close>, the peak at \<open>5007.55 = 5007 + 1.1 * 0.5\<close> is matched, and the row
  of the line is returned as detected.
\<close>

theorem label_peaks_relative_tolerance:
  "map_option (\<lambda>m. m * 5) (mean_diff fine_wave_rest) = Some (1 / 2)
   \<and> np_take fine_wave_rest [1] = Inr [5007 + 1.1 * (1 / 2)]
   \<and> label_peaks decimal_float unknown_label fine_wave_rest [1, 3, 1] ''A''
        [\<lparr>peak_line_type = ''emission'', line_center_index = 1\<rparr>] O3_mask ''emission'' 5
        ''fixed'' False
      = Some (Inr O3_mask)"
proof -
  have m: "map (\<lambda>(r, w). \<lparr>m_label = row_label r, m_w3 = row_w3 r, m_w4 = row_w4 r,
                           m_cols = cols r, m_wavelength = w, m_observation = ''not detected''\<rparr>)
             (zip O3_mask [5007])
         = [\<lparr>m_label = ''O3_5007A'', m_w3 = 4997, m_w4 = 5017, m_cols = Some (),
              m_wavelength = 5007, m_observation = ''not detected''\<rparr>]"
    by (simp add: O3_mask_def)
  have l: "length O3_mask = 1" by (simp add: O3_mask_def)
  have a: "map_option (\<lambda>m. m * 5) (mean_diff fine_wave_rest) = Some (1 / 2)"
    by (simp add: mean_diff_fine)
  have b: "np_take fine_wave_rest [1] = Inr [5007 + 1.1 * (1 / 2)]"
    by (simp add: np_get_def fine_wave_rest_def)
  have c: "label_peaks decimal_float unknown_label fine_wave_rest [1, 3, 1] ''A''
        [\<lparr>peak_line_type = ''emission'', line_center_index = 1\<rparr>] O3_mask ''emission'' 5
        ''fixed'' False
      = Some (Inr O3_mask)"
    unfolding label_peaks_def
    by (simp add: np_take_fine label_decomposition_O3_mask mean_diff_fine Let_def m l
        isclose_def mark_detected_def refine_width_def contains_def occurrences_def
        del: np_take.simps)
       (simp add: O3_mask_def)
  from a b c show ?thesis by (intro conjI)
qed

text \<open>
  On a spectrum sampled every \<open>1\<close> the tolerance is \<open>5\<close>, and the peak at
  \<open>5012.5 = 5007 + 1.1 * 5\<close> is not matched: the line is dropped as not detected and,
  \<open>detect_check\<close> being off, nothing is returned for the peak.
\<close>

lemma label_peaks_coarse:
  "label_peaks decimal_float unknown_label [5011.5, 5012.5, 5013.5] [1, 3, 1] ''A''
        [\<lparr>peak_line_type = ''emission'', line_center_index = 1\<rparr>] O3_mask ''emission'' 5
        ''fixed'' False
      = Some (Inr [])"
proof -
  define ws :: "real list" where "ws = [5011.5, 5012.5, 5013.5]"
  have m: "map (\<lambda>(r, w). \<lparr>m_label = row_label r, m_w3 = row_w3 r, m_w4 = row_w4 r,
                           m_cols = cols r, m_wavelength = w, m_observation = ''not detected''\<rparr>)
             (zip O3_mask [5007])
         = [\<lparr>m_label = ''O3_5007A'', m_w3 = 4997, m_w4 = 5017, m_cols = Some (),
              m_wavelength = 5007, m_observation = ''not detected''\<rparr>]"
    by (simp add: O3_mask_def)
  have l: "length O3_mask = 1" by (simp add: O3_mask_def)
  have t: "np_take ws [1] = Inr [5012.5]"
    by (simp add: np_get_def ws_def)
  have d: "mean_diff ws = Some 1"
    by (simp add: mean_diff_def ws_def)
  have "label_peaks decimal_float unknown_label ws [1, 3, 1] ''A''
        [\<lparr>peak_line_type = ''emission'', line_center_index = 1\<rparr>] O3_mask ''emission'' 5
        ''fixed'' False
      = Some (Inr [])"
    unfolding label_peaks_def
    by (simp add: t d label_decomposition_O3_mask Let_def m l isclose_def
        del: np_take.simps)
  then show ?thesis by (simp only: ws_def)
qed

end
